theory Spec2Isabelle
  imports Main
begin

section \<open>podman-bootc: the disk-image cache and build pipeline (pkg/bootc/bootc\_disk.go)\<close>

text \<open>
  A shallow embedding of \<^verbatim>\<open>src/pkg/bootc/bootc_disk.go\<close>. Go functions that
  touch the file system, the lock or podman become functions on an explicit \<open>world\<close>;
  every outcome that the source cannot decide by itself (a failing system call, what
  podman answers) is read from an \<open>env\<close> record, so each \<open>if err != nil\<close> of the
  source is a branch of the model. Log output (logrus, fmt.Printf) is not modelled.
\<close>

subsection \<open>Errors and results\<close>

text \<open>
  A Go \<open>error\<close> value: an error coming out of a system call or a library
  (\<open>Errno\<close>), \<open>fmt.Errorf\<close> without \<open>%w\<close> (\<open>Errorf\<close>) and
  \<open>fmt.Errorf("msg: %w", err)\<close> (\<open>Wrap\<close>).
\<close>

datatype error = Errno string | Errorf string | Wrap string error

text \<open>
  What a call comes back with: normally with a value, with a non-nil error, or not at
  all because of a run-time panic (index out of range, nil dereference, division by
  zero), which unwinds through the callers and runs their deferred calls.
\<close>

datatype 'a res = Ok 'a | Err error | Panic string

text \<open>\<open>errors.Is(err, os.ErrNotExist)\<close>: follows the chain of wrapped errors.\<close>

fun is_ErrNotExist :: "error \<Rightarrow> bool" where
  "is_ErrNotExist (Errno s) = (s = ''ENOENT'')"
| "is_ErrNotExist (Errorf s) = False"
| "is_ErrNotExist (Wrap s e) = is_ErrNotExist e"

subsection \<open>Constants and 64-bit arithmetic\<close>

definition containerSizeToDiskSizeMultiplier :: int where
  "containerSizeToDiskSizeMultiplier = 2"

definition diskSizeMinimum :: int where
  "diskSizeMinimum = 10 * 1024 * 1024 * 1024"

definition imageMetaXattr :: string where
  "imageMetaXattr = ''user.bootc.meta''"

text \<open>
  Go's \<open>int64\<close> as an \<open>int\<close> with the wrap-around written out: \<open>wrap64\<close> is
  what an \<open>int64\<close> operation keeps of the mathematical result.
\<close>

definition wrap64 :: "int \<Rightarrow> int" where
  "wrap64 x = (x + 2 ^ 63) mod 2 ^ 64 - 2 ^ 63"

text \<open>Go's \<open>%\<close> truncates towards zero: the remainder has the sign of the dividend.\<close>

definition go_rem :: "int \<Rightarrow> int \<Rightarrow> int" where
  "go_rem a b = sgn a * (\<bar>a\<bar> mod \<bar>b\<bar>)"

text \<open>
  \<^verbatim>\<open>
  func align(size int64, align int64) int64 {
      rem := size % align
      if rem != 0 { size += (align - rem) }
      return size
  }
  \<close>
  \<open>size % 0\<close> is a run-time panic in Go.
\<close>

definition align :: "int \<Rightarrow> int \<Rightarrow> int res" where
  "align sz a =
     (if a = 0 then Panic ''integer divide by zero''
      else let rem = go_rem sz a in
           if rem \<noteq> 0 then Ok (wrap64 (sz + wrap64 (a - rem))) else Ok sz)"

subsection \<open>Data\<close>

type_synonym bytes = string

record DiskImageConfig =
  Filesystem :: string
  RootSizeMax :: string
  DiskSize :: string

text \<open>\<open>diskFromContainerMeta\<close>: the record serialised into the extended attribute.\<close>

record diskFromContainerMeta =
  ImageDigest :: string

text \<open>The two fields of podman's \<open>types.ImageInspectReport\<close> that the code reads.\<close>

record ImageInspectReport =
  Size :: int
  RepoTags :: "string list"

text \<open>\<open>user.User\<close> (pkg/user): the code calls its \<open>CacheDir()\<close> and \<open>RunDir()\<close>.\<close>

record user_User =
  CacheDir :: string
  RunDir :: string

text \<open>A \<open>context.Context\<close> is an opaque token here.\<close>

type_synonym go_context = nat

record BootcDisk =
  ImageNameOrId :: string
  User :: user_User
  Ctx :: go_context
  ImageId :: string
  imageData :: "ImageInspectReport option"
  RepoTag :: string
  CreatedAt :: nat
  Directory :: string
  p_file :: "string option"
  bootcInstallContainerId :: string

text \<open>
  The pure libraries the code calls and the one constant it reads from another package:
  \<open>encoding/json\<close> on \<open>diskFromContainerMeta\<close>, \<open>units.FromHumanSize\<close> of
  docker/go-units (an \<open>int64\<close>) and \<open>config.DiskImage\<close>, the file name of the
  disk image inside the cache directory. They are parameters of the model.
\<close>

record lib =
  json_Marshal :: "diskFromContainerMeta \<Rightarrow> error + bytes"
  json_Unmarshal :: "bytes \<Rightarrow> error + diskFromContainerMeta"
  units_FromHumanSize :: "string \<Rightarrow> error + int"
  config_DiskImage :: string

subsection \<open>The disk size (lines 225 to 239 of bootcInstallImageToDisk)\<close>

text \<open>
  \<^verbatim>\<open>
  size := p.imageData.Size * containerSizeToDiskSizeMultiplier
  if size < diskSizeMinimum { size = diskSizeMinimum }
  if diskConfig.DiskSize != "" {
      diskConfigSize, err := units.FromHumanSize(diskConfig.DiskSize)
      if err != nil { return err }
      if size < diskConfigSize { size = diskConfigSize }
  }
  size = align(size, 4096)
  \<close>
\<close>

definition computeSize :: "lib \<Rightarrow> int \<Rightarrow> string \<Rightarrow> int res" where
  "computeSize l imageSize diskSize =
     (let sz = wrap64 (imageSize * containerSizeToDiskSizeMultiplier);
          sz = (if sz < diskSizeMinimum then diskSizeMinimum else sz)
      in if diskSize \<noteq> [] then
           (case units_FromHumanSize l diskSize of
              Inl e \<Rightarrow> Err e
            | Inr diskConfigSize \<Rightarrow>
                align (if sz < diskConfigSize then diskConfigSize else sz) 4096)
         else align sz 4096)"

subsection \<open>The singleton constructor\<close>

text \<open>
  The package variables \<open>instance\<close> and \<open>instanceOnce\<close>, and the heap the pointer
  \<open>instance\<close> points into: a \<open>*BootcDisk\<close> is an index into \<open>heap\<close>, \<open>nil\<close> is
  \<open>None\<close>. \<open>sync.Once.Do\<close> runs its argument on the first call only.
\<close>

record globals =
  heap :: "BootcDisk list"
  instance_ptr :: "nat option"
  instanceOnce :: bool

definition globals_init :: globals where
  "globals_init = \<lparr>heap = [], instance_ptr = None, instanceOnce = False\<rparr>"

text \<open>The composite literal \<open>&BootcDisk{ImageNameOrId: .., Ctx: .., User: ..}\<close>.\<close>

definition new_BootcDisk :: "string \<Rightarrow> go_context \<Rightarrow> user_User \<Rightarrow> BootcDisk" where
  "new_BootcDisk imageNameOrId ctx usr =
     \<lparr>ImageNameOrId = imageNameOrId, User = usr, Ctx = ctx, ImageId = [],
      imageData = None, RepoTag = [], CreatedAt = 0, Directory = [], p_file = None,
      bootcInstallContainerId = []\<rparr>"

definition NewBootcDisk ::
  "string \<Rightarrow> go_context \<Rightarrow> user_User \<Rightarrow> globals \<Rightarrow> nat option \<times> globals" where
  "NewBootcDisk imageNameOrId ctx usr g =
     (let g' = (if instanceOnce g then g
                else g\<lparr>heap := heap g @ [new_BootcDisk imageNameOrId ctx usr],
                       instance_ptr := Some (length (heap g)),
                       instanceOnce := True\<rparr>)
      in (instance_ptr g', g'))"

text \<open>A sequence of calls, each with its own arguments; the pointers they return.\<close>

fun NewBootcDisk_calls ::
  "(string \<times> go_context \<times> user_User) list \<Rightarrow> globals \<Rightarrow> nat option list \<times> globals" where
  "NewBootcDisk_calls [] g = ([], g)"
| "NewBootcDisk_calls ((n, c, u) # cs) g =
     (let (r, g') = NewBootcDisk n c u g;
          (rs, g'') = NewBootcDisk_calls cs g'
      in (r # rs, g''))"

subsection \<open>The world: files, locks and the calls made\<close>

text \<open>
  A file of the cache directory: its size and the value of its extended attribute
  \<open>user.bootc.meta\<close> (\<open>None\<close> when the attribute is not set). File contents are
  opaque: the installer writes them.
\<close>

record file_node =
  fsize :: int
  xattr :: "bytes option"

text \<open>Who holds the cache lock of a directory: nobody, this process, another process.\<close>

datatype holder = Free | Self | Other

text \<open>
  The container specification that createInstallContainer builds
  (\<open>specgen.SpecGenerator\<close>), field by field.
\<close>

record specs_Mount =
  Source :: string
  Destination :: string
  Type :: string
  Options :: "string list"

record SpecGenerator =
  Command :: "string list"
  PidNS :: string
  Remove :: bool
  Annotations :: "(string \<times> string) list"
  Env :: "(string \<times> string) list"
  Terminal :: bool
  Image :: string
  Mounts :: "specs_Mount list"
  Privileged :: bool
  LabelNested :: bool
  SelinuxOpts :: "string list"
  NetNS :: string

text \<open>
  Every call that leaves the process is recorded, in order, with whether it succeeded:
  the trace is what the ordering properties are stated on.
\<close>

datatype call =
    EvPull string
  | EvGetImage string
  | EvTryLock string
  | EvUnlock string
  | EvMkdirAll string
  | EvOpen string
  | EvClose string
  | EvFgetxattr string string
  | EvRemove string
  | EvCreateTemp string string
  | EvFtruncate string int
  | EvCopy string
  | EvChmod string
  | EvCreateWithSpec SpecGenerator
  | EvStart string
  | EvAttach string
  | EvWait string
  | EvFsetxattr string string bytes
  | EvRename string string
  | EvContainerRemove string

type_synonym event = "call \<times> bool"

record world =
  fs :: "string \<Rightarrow> file_node option"
  locks :: "string \<Rightarrow> holder"
  trace :: "event list"

text \<open>
  What the outside answers during one invocation: the clock, podman (images and
  containers), and for each system call that can fail for reasons the model does not
  track (permissions, a full disk, a file system without extended attributes) the
  error it fails with, if any. \<open>CreateTemp_rand\<close> is the random suffix
  \<open>os.CreateTemp\<close> appends to the pattern, or the error it fails with.
\<close>

record env =
  time_Now :: nat
  images_Pull :: "string \<Rightarrow> error + string list"
  images_GetImage :: "string \<Rightarrow> error + ImageInspectReport"
  TryLock_fault :: "error option"
  Unlock_fault :: "error option"
  MkdirAll_fault :: "error option"
  Open_fault :: "error option"
  CreateTemp_rand :: "string \<Rightarrow> error + string"
  Ftruncate_fault :: "error option"
  Copy_fault :: "error option"
  Chmod_fault :: "error option"
  LookupEnv :: "string \<Rightarrow> string option"
  containers_CreateWithSpec :: "SpecGenerator \<Rightarrow> error + string"
  containers_Start :: "string \<Rightarrow> error option"
  containers_Attach :: "string \<Rightarrow> error option"
  containers_Wait :: "string \<Rightarrow> error + int"
  containers_Remove :: "string \<Rightarrow> error option"
  Fsetxattr_fault :: "error option"
  Rename_fault :: "error option"

definition emit :: "call \<Rightarrow> bool \<Rightarrow> world \<Rightarrow> world" where
  "emit c ok w = w\<lparr>trace := trace w @ [(c, ok)]\<rparr>"

text \<open>
  \<open>filepath.Join\<close> and \<open>filepath.Base\<close> on clean path elements (the
  normalisation of \<open>filepath.Clean\<close> is not modelled).
\<close>

definition filepath_Join :: "string \<Rightarrow> string \<Rightarrow> string" where
  "filepath_Join dir name = dir @ ''/'' @ name"

definition filepath_Base :: "string \<Rightarrow> string" where
  "filepath_Base path = rev (takeWhile (\<lambda>c. c \<noteq> CHR ''/'') (rev path))"

subsection \<open>System calls\<close>

text \<open>\<open>os.Open\<close>: the handle of an open file is its path.\<close>

definition os_Open :: "env \<Rightarrow> string \<Rightarrow> world \<Rightarrow> (error + string) \<times> world" where
  "os_Open ev path w =
     (case Open_fault ev of
        Some e \<Rightarrow> (Inl e, emit (EvOpen path) False w)
      | None \<Rightarrow>
          (case fs w path of
             None \<Rightarrow> (Inl (Errno ''ENOENT''), emit (EvOpen path) False w)
           | Some f \<Rightarrow> (Inr path, emit (EvOpen path) True w)))"

definition os_Close :: "string \<Rightarrow> world \<Rightarrow> world" where
  "os_Close path w = emit (EvClose path) True w"

text \<open>
  \<open>unix.Fgetxattr(fd, name, buf)\<close> with a buffer of \<open>bufsize\<close> bytes: fails with
  ENODATA when the attribute is not set and with ERANGE when the value does not fit the
  buffer; otherwise the value read is \<open>buf[:len]\<close>.
\<close>

definition unix_Fgetxattr ::
  "string \<Rightarrow> string \<Rightarrow> nat \<Rightarrow> world \<Rightarrow> (error + bytes) \<times> world" where
  "unix_Fgetxattr path name bufsize w =
     (case fs w path of
        None \<Rightarrow> (Inl (Errno ''EBADF''), emit (EvFgetxattr path name) False w)
      | Some f \<Rightarrow>
          (case xattr f of
             None \<Rightarrow> (Inl (Errno ''ENODATA''), emit (EvFgetxattr path name) False w)
           | Some v \<Rightarrow>
               if length v > bufsize
               then (Inl (Errno ''ERANGE''), emit (EvFgetxattr path name) False w)
               else (Inr v, emit (EvFgetxattr path name) True w)))"

text \<open>
  \<open>os.Remove\<close>: every caller ignores its result; the file is gone afterwards.
\<close>

definition os_Remove :: "string \<Rightarrow> world \<Rightarrow> world" where
  "os_Remove path w =
     emit (EvRemove path) (fs w path \<noteq> None) (w\<lparr>fs := (fs w)(path := None)\<rparr>)"

text \<open>
  \<open>os.CreateTemp(dir, pattern)\<close> creates a new, empty file \<open>dir/pattern<random>\<close>
  with \<open>O_EXCL\<close>: it never returns a file that existed before.
\<close>

definition os_CreateTemp ::
  "env \<Rightarrow> string \<Rightarrow> string \<Rightarrow> world \<Rightarrow> (error + string) \<times> world" where
  "os_CreateTemp ev dir pattern w =
     (case CreateTemp_rand ev pattern of
        Inl e \<Rightarrow> (Inl e, emit (EvCreateTemp dir pattern) False w)
      | Inr r \<Rightarrow>
          (let name = filepath_Join dir (pattern @ r) in
           if fs w name \<noteq> None
           then (Inl (Errno ''EEXIST''), emit (EvCreateTemp dir pattern) False w)
           else (Inr name,
                 emit (EvCreateTemp dir pattern) True
                   (w\<lparr>fs := (fs w)(name \<mapsto> \<lparr>fsize = 0, xattr = None\<rparr>)\<rparr>))))"

text \<open>\<open>syscall.Ftruncate(fd, size)\<close>: EINVAL for a negative size.\<close>

definition syscall_Ftruncate ::
  "env \<Rightarrow> string \<Rightarrow> int \<Rightarrow> world \<Rightarrow> error option \<times> world" where
  "syscall_Ftruncate ev path sz w =
     (if sz < 0 then (Some (Errno ''EINVAL''), emit (EvFtruncate path sz) False w)
      else
        (case Ftruncate_fault ev of
           Some e \<Rightarrow> (Some e, emit (EvFtruncate path sz) False w)
         | None \<Rightarrow>
             (None,
              emit (EvFtruncate path sz) True
                (w\<lparr>fs := (fs w)(path := map_option (\<lambda>f. f\<lparr>fsize := sz\<rparr>) (fs w path))\<rparr>))))"

definition unix_Fsetxattr ::
  "env \<Rightarrow> string \<Rightarrow> string \<Rightarrow> bytes \<Rightarrow> world \<Rightarrow> error option \<times> world" where
  "unix_Fsetxattr ev path name buf w =
     (case Fsetxattr_fault ev of
        Some e \<Rightarrow> (Some e, emit (EvFsetxattr path name buf) False w)
      | None \<Rightarrow>
          (None,
           emit (EvFsetxattr path name buf) True
             (w\<lparr>fs := (fs w)(path := map_option (\<lambda>f. f\<lparr>xattr := Some buf\<rparr>) (fs w path))\<rparr>)))"

text \<open>
  \<open>os.Rename(src, dst)\<close>: atomic; on success \<open>dst\<close> is the file that was \<open>src\<close>,
  replacing what was at \<open>dst\<close>; on failure nothing changes.
\<close>

definition os_Rename ::
  "env \<Rightarrow> string \<Rightarrow> string \<Rightarrow> world \<Rightarrow> error option \<times> world" where
  "os_Rename ev src dst w =
     (case Rename_fault ev of
        Some e \<Rightarrow> (Some e, emit (EvRename src dst) False w)
      | None \<Rightarrow>
          (case fs w src of
             None \<Rightarrow> (Some (Errno ''ENOENT''), emit (EvRename src dst) False w)
           | Some f \<Rightarrow>
               (None,
                emit (EvRename src dst) True
                  (w\<lparr>fs := ((fs w)(src := None))(dst \<mapsto> f)\<rparr>))))"

definition os_MkdirAll :: "env \<Rightarrow> string \<Rightarrow> world \<Rightarrow> error option \<times> world" where
  "os_MkdirAll ev dir w =
     (case MkdirAll_fault ev of
        Some e \<Rightarrow> (Some e, emit (EvMkdirAll dir) False w)
      | None \<Rightarrow> (None, emit (EvMkdirAll dir) True w))"

text \<open>\<open>io.Copy\<close> into the losetup wrapper and \<open>Chmod(0o755)\<close> on it.\<close>

definition io_Copy :: "env \<Rightarrow> string \<Rightarrow> world \<Rightarrow> error option \<times> world" where
  "io_Copy ev path w =
     (case Copy_fault ev of
        Some e \<Rightarrow> (Some e, emit (EvCopy path) False w)
      | None \<Rightarrow> (None, emit (EvCopy path) True w))"

definition file_Chmod :: "env \<Rightarrow> string \<Rightarrow> world \<Rightarrow> error option \<times> world" where
  "file_Chmod ev path w =
     (case Chmod_fault ev of
        Some e \<Rightarrow> (Some e, emit (EvChmod path) False w)
      | None \<Rightarrow> (None, emit (EvChmod path) True w))"

subsection \<open>The cache lock\<close>

text \<open>
  Modelled from the spec: \<open>utils.CacheLock\<close> (pkg/utils: NewCacheLock, TryLock,
  Unlock) is not among the sources. Section 4.1: TryLock(mode) is a single
  non-blocking attempt on the lock of a cache directory and returns
  \<open>(acquired, err)\<close>; \<open>acquired = false\<close> means that the lock is held elsewhere;
  only one exclusive holder per path; the lock's identity is the cache directory's
  path; Unlock releases the lock. The attempt is one step: it reads who holds the lock
  and answers, it never waits.
\<close>

definition lock_TryLock :: "env \<Rightarrow> string \<Rightarrow> world \<Rightarrow> (error + bool) \<times> world" where
  "lock_TryLock ev dir w =
     (case TryLock_fault ev of
        Some e \<Rightarrow> (Inl e, emit (EvTryLock dir) False w)
      | None \<Rightarrow>
          (case locks w dir of
             Free \<Rightarrow> (Inr True, emit (EvTryLock dir) True (w\<lparr>locks := (locks w)(dir := Self)\<rparr>))
           | Self \<Rightarrow> (Inr False, emit (EvTryLock dir) False w)
           | Other \<Rightarrow> (Inr False, emit (EvTryLock dir) False w)))"

text \<open>
  Modelled from the spec: \<open>Unlock()\<close> releases the lock; it can fail, and the caller
  only logs that.
\<close>

definition lock_Unlock :: "env \<Rightarrow> string \<Rightarrow> world \<Rightarrow> error option \<times> world" where
  "lock_Unlock ev dir w =
     (case Unlock_fault ev of
        Some e \<Rightarrow> (Some e, emit (EvUnlock dir) False w)
      | None \<Rightarrow> (None, emit (EvUnlock dir) True (w\<lparr>locks := (locks w)(dir := Free)\<rparr>)))"

subsection \<open>pullImage\<close>

text \<open>
  \<open>ids[0]\<close> is read after both length checks; \<open>image.RepoTags[0]\<close> is read with
  no check, so an image without a repo tag is an index-out-of-range panic.
\<close>

definition pullImage :: "env \<Rightarrow> BootcDisk \<Rightarrow> world \<Rightarrow> unit res \<times> BootcDisk \<times> world" where
  "pullImage ev p w =
     (case images_Pull ev (ImageNameOrId p) of
        Inl e \<Rightarrow> (Err (Wrap ''failed to pull image'' e), p, emit (EvPull (ImageNameOrId p)) False w)
      | Inr ids \<Rightarrow>
          (let w = emit (EvPull (ImageNameOrId p)) True w in
           if length ids = 0 then (Err (Errorf ''no ids returned from image pull''), p, w)
           else if length ids > 1 then (Err (Errorf ''multiple ids returned from image pull''), p, w)
           else
             (case images_GetImage ev (ImageNameOrId p) of
                Inl e \<Rightarrow>
                  (Err (Wrap ''failed to get image'' e), p, emit (EvGetImage (ImageNameOrId p)) False w)
              | Inr img \<Rightarrow>
                  (let w = emit (EvGetImage (ImageNameOrId p)) True w;
                       p = p\<lparr>imageData := Some img\<rparr>;
                       imageId = ids ! 0;
                       p = p\<lparr>ImageId := imageId\<rparr>
                   in case RepoTags img of
                        [] \<Rightarrow> (Panic ''index out of range [0] with length 0'', p, w)
                      | t # ts \<Rightarrow> (Ok (), p\<lparr>RepoTag := t\<rparr>, w)))))"

subsection \<open>The installer session\<close>

text \<open>
  createInstallContainer: \<open>p.file.Name()\<close> dereferences \<open>p.file\<close>, a panic when it
  is nil.
\<close>

definition createInstallContainer ::
  "env \<Rightarrow> DiskImageConfig \<Rightarrow> string \<Rightarrow> BootcDisk \<Rightarrow> world \<Rightarrow> string res \<times> world" where
  "createInstallContainer ev config tempLosetup p w =
     (let targetEnv =
            (case LookupEnv ev ''BOOTC_INSTALL_LOG'' of
               Some v \<Rightarrow> [(''RUST_LOG'', v)]
             | None \<Rightarrow> []);
          bootcInstallArgs =
            [''bootc'', ''install'', ''to-disk'', ''--via-loopback'', ''--generic-image'',
             ''--skip-fetch-check''];
          bootcInstallArgs =
            (if Filesystem config \<noteq> []
             then bootcInstallArgs @ [''--filesystem'', Filesystem config]
             else bootcInstallArgs);
          bootcInstallArgs =
            (if RootSizeMax config \<noteq> []
             then bootcInstallArgs @ [''--root-size='' @ RootSizeMax config]
             else bootcInstallArgs)
      in case p_file p of
           None \<Rightarrow> (Panic ''nil pointer dereference'', w)
         | Some name \<Rightarrow>
             (let bootcInstallArgs = bootcInstallArgs @ [''/output/'' @ filepath_Base name];
                  s = \<lparr>Command = bootcInstallArgs,
                       PidNS = ''host'',
                       Remove = True,
                       Annotations = [(''io.podman.annotations.label'', ''type:unconfined_t'')],
                       Env = targetEnv,
                       Terminal = True,
                       Image = ImageNameOrId p,
                       Mounts =
                         [\<lparr>Source = ''/var/lib/containers'', Destination = ''/var/lib/containers'',
                           Type = ''bind'', Options = []\<rparr>,
                          \<lparr>Source = ''/dev'', Destination = ''/dev'', Type = ''bind'', Options = []\<rparr>,
                          \<lparr>Source = Directory p, Destination = ''/output'', Type = ''bind'',
                           Options = []\<rparr>,
                          \<lparr>Source = tempLosetup, Destination = ''/usr/local/sbin/losetup'',
                           Type = ''bind'', Options = [''ro'']\<rparr>],
                       Privileged = True,
                       LabelNested = True,
                       SelinuxOpts = [''type:unconfined_t''],
                       NetNS = ''bridge''\<rparr>
              in case containers_CreateWithSpec ev s of
                   Inl e \<Rightarrow>
                     (Err (Wrap ''failed to create container'' e), emit (EvCreateWithSpec s) False w)
                 | Inr cid \<Rightarrow> (Ok cid, emit (EvCreateWithSpec s) True w)))"

text \<open>
  The part of runInstallContainer that runs once the container exists: start, attach
  unless quiet, wait, and the exit code.
\<close>

definition runInstallContainer_run ::
  "env \<Rightarrow> bool \<Rightarrow> BootcDisk \<Rightarrow> world \<Rightarrow> unit res \<times> BootcDisk \<times> world" where
  "runInstallContainer_run ev quiet p w =
     (case containers_Start ev (bootcInstallContainerId p) of
        Some e \<Rightarrow>
          (Err (Wrap ''failed to start container'' e), p,
           emit (EvStart (bootcInstallContainerId p)) False w)
      | None \<Rightarrow>
          (let w = emit (EvStart (bootcInstallContainerId p)) True w;
               attached =
                 (if \<not> quiet
                  then (case containers_Attach ev (bootcInstallContainerId p) of
                          Some e \<Rightarrow> (Some e, emit (EvAttach (bootcInstallContainerId p)) False w)
                        | None \<Rightarrow> (None, emit (EvAttach (bootcInstallContainerId p)) True w))
                  else (None, w))
           in case attached of
                (Some e, w) \<Rightarrow> (Err (Wrap ''attaching'' e), p, w)
              | (None, w) \<Rightarrow>
                  (case containers_Wait ev (bootcInstallContainerId p) of
                     Inl e \<Rightarrow>
                       (Err (Wrap ''failed to wait for container'' e), p,
                        emit (EvWait (bootcInstallContainerId p)) False w)
                   | Inr exitCode \<Rightarrow>
                       (let w = emit (EvWait (bootcInstallContainerId p)) True w in
                        if exitCode \<noteq> 0 then (Err (Errorf ''failed to run bootc install''), p, w)
                        else (Ok (), p, w)))))"

text \<open>
  runInstallContainer: the losetup wrapper is a temporary file of the cache directory,
  removed by \<open>defer os.Remove(losetupTemp.Name())\<close> on every way out after its
  creation.
\<close>

definition runInstallContainer ::
  "env \<Rightarrow> bool \<Rightarrow> DiskImageConfig \<Rightarrow> BootcDisk \<Rightarrow> world \<Rightarrow> unit res \<times> BootcDisk \<times> world" where
  "runInstallContainer ev quiet config p w =
     (case os_CreateTemp ev (Directory p) ''losetup-wrapper'' w of
        (Inl e, w) \<Rightarrow> (Err (Wrap ''temp losetup wrapper'' e), p, w)
      | (Inr losetupTemp, w) \<Rightarrow>
          (case
             (case io_Copy ev losetupTemp w of
                (Some e, w) \<Rightarrow> (Err (Wrap ''temp losetup wrapper copy'' e), p, w)
              | (None, w) \<Rightarrow>
                  (case file_Chmod ev losetupTemp w of
                     (Some e, w) \<Rightarrow> (Err (Wrap ''temp losetup wrapper chmod'' e), p, w)
                   | (None, w) \<Rightarrow>
                       (case createInstallContainer ev config losetupTemp p w of
                          (Panic m, w) \<Rightarrow> (Panic m, p, w)
                        | (Err e, w) \<Rightarrow> (Err (Wrap ''failed to create container'' e), p, w)
                        | (Ok cid, w) \<Rightarrow>
                            runInstallContainer_run ev quiet (p\<lparr>bootcInstallContainerId := cid\<rparr>) w)))
           of (r, p, w) \<Rightarrow> (r, p, os_Remove losetupTemp w)))"

subsection \<open>bootcInstallImageToDisk\<close>

text \<open>
  The part of bootcInstallImageToDisk after \<open>defer func() { if doCleanupDisk {
  os.Remove(p.file.Name()) } }()\<close>: the installer, the attribute, the rename. The
  fourth component is \<open>doCleanupDisk\<close> as the deferred function finds it. \<open>tmp\<close>
  is \<open>p.file.Name()\<close>: nothing assigns \<open>p.file\<close> in between.
\<close>

definition bootcInstallImageToDisk_publish ::
  "lib \<Rightarrow> env \<Rightarrow> bool \<Rightarrow> DiskImageConfig \<Rightarrow> string \<Rightarrow> BootcDisk \<Rightarrow> world
     \<Rightarrow> unit res \<times> BootcDisk \<times> world \<times> bool" where
  "bootcInstallImageToDisk_publish l ev quiet diskConfig tmp p w =
     (case runInstallContainer ev quiet diskConfig p w of
        (Panic m, p, w) \<Rightarrow> (Panic m, p, w, True)
      | (Err e, p, w) \<Rightarrow> (Err (Wrap ''failed to create disk image'' e), p, w, True)
      | (Ok u, p, w) \<Rightarrow>
          (let serializedMeta = \<lparr>ImageDigest = ImageId p\<rparr> in
           case json_Marshal l serializedMeta of
             Inl e \<Rightarrow> (Err e, p, w, True)
           | Inr buf \<Rightarrow>
               (case unix_Fsetxattr ev tmp imageMetaXattr buf w of
                  (Some e, w) \<Rightarrow> (Err (Wrap ''failed to set xattr'' e), p, w, True)
                | (None, w) \<Rightarrow>
                    (let diskPath = filepath_Join (Directory p) (config_DiskImage l) in
                     case os_Rename ev tmp diskPath w of
                       (Some e, w) \<Rightarrow> (Err (Wrap (''failed to rename to '' @ diskPath) e), p, w, True)
                     | (None, w) \<Rightarrow> (Ok (), p, w, False)))))"

text \<open>
  bootcInstallImageToDisk. The temporary file is created first; the three returns
  before the \<open>defer\<close> (the size that does not parse, \<open>Ftruncate\<close> failing, and the
  panic on a nil \<open>p.imageData\<close>) leave without the deferred removal.
\<close>

definition bootcInstallImageToDisk ::
  "lib \<Rightarrow> env \<Rightarrow> bool \<Rightarrow> DiskImageConfig \<Rightarrow> BootcDisk \<Rightarrow> world
     \<Rightarrow> unit res \<times> BootcDisk \<times> world" where
  "bootcInstallImageToDisk l ev quiet diskConfig p w =
     (case os_CreateTemp ev (Directory p) ''podman-bootc-tempdisk'' w of
        (Inl e, w) \<Rightarrow> (Err e, p\<lparr>p_file := None\<rparr>, w)
      | (Inr tmp, w) \<Rightarrow>
          (let p = p\<lparr>p_file := Some tmp\<rparr> in
           case imageData p of
             None \<Rightarrow> (Panic ''nil pointer dereference'', p, w)
           | Some img \<Rightarrow>
               (case computeSize l (Size img) (DiskSize diskConfig) of
                  Panic m \<Rightarrow> (Panic m, p, w)
                | Err e \<Rightarrow> (Err e, p, w)
                | Ok sz \<Rightarrow>
                    (case syscall_Ftruncate ev tmp sz w of
                       (Some e, w) \<Rightarrow> (Err e, p, w)
                     | (None, w) \<Rightarrow>
                         (case bootcInstallImageToDisk_publish l ev quiet diskConfig tmp p w of
                            (r, p, w, doCleanupDisk) \<Rightarrow>
                              (r, p, if doCleanupDisk then os_Remove tmp w else w))))))"

subsection \<open>getOrInstallImageToDisk\<close>

text \<open>
  The outer \<open>case\<close> is \<open>defer f.Close()\<close>. Only the branch where
  \<open>unix.Fgetxattr\<close> fails calls \<open>os.Remove(diskPath)\<close>.
\<close>

definition getOrInstallImageToDisk ::
  "lib \<Rightarrow> env \<Rightarrow> bool \<Rightarrow> DiskImageConfig \<Rightarrow> BootcDisk \<Rightarrow> world
     \<Rightarrow> unit res \<times> BootcDisk \<times> world" where
  "getOrInstallImageToDisk l ev quiet diskConfig p w =
     (let diskPath = filepath_Join (Directory p) (config_DiskImage l) in
      case os_Open ev diskPath w of
        (Inl e, w) \<Rightarrow>
          if \<not> is_ErrNotExist e then (Err e, p, w)
          else bootcInstallImageToDisk l ev quiet diskConfig p w
      | (Inr f, w) \<Rightarrow>
          (case
             (case unix_Fgetxattr f imageMetaXattr 4096 w of
                (Inl e, w) \<Rightarrow>
                  bootcInstallImageToDisk l ev quiet diskConfig p (os_Remove diskPath w)
              | (Inr bufTrimmed, w) \<Rightarrow>
                  (case json_Unmarshal l bufTrimmed of
                     Inl e \<Rightarrow> bootcInstallImageToDisk l ev quiet diskConfig p w
                   | Inr serializedMeta \<Rightarrow>
                       if ImageDigest serializedMeta = ImageId p then (Ok (), p, w)
                       else bootcInstallImageToDisk l ev quiet diskConfig p w))
           of (r, p, w) \<Rightarrow> (r, p, os_Close f w)))"

subsection \<open>Install, Cleanup and the getters\<close>

text \<open>
  Install. The inner \<open>case\<close> is what runs under \<open>defer lock.Unlock()\<close>, whose
  error is only logged.
\<close>

definition Install ::
  "lib \<Rightarrow> env \<Rightarrow> bool \<Rightarrow> DiskImageConfig \<Rightarrow> BootcDisk \<Rightarrow> world
     \<Rightarrow> unit res \<times> BootcDisk \<times> world" where
  "Install l ev quiet config p w =
     (let p = p\<lparr>CreatedAt := time_Now ev\<rparr> in
      case pullImage ev p w of
        (Panic m, p, w) \<Rightarrow> (Panic m, p, w)
      | (Err e, p, w) \<Rightarrow> (Err e, p, w)
      | (Ok u, p, w) \<Rightarrow>
          (let p = p\<lparr>Directory := filepath_Join (CacheDir (User p)) (ImageId p)\<rparr> in
           case lock_TryLock ev (Directory p) w of
             (Inl e, w) \<Rightarrow> (Err (Wrap ''error locking the VM cache path'' e), p, w)
           | (Inr locked, w) \<Rightarrow>
               if \<not> locked then (Err (Errorf ''unable to lock the VM cache path''), p, w)
               else
                 (case
                    (case os_MkdirAll ev (Directory p) w of
                       (Some e, w) \<Rightarrow>
                         (Err (Wrap ''error while making bootc disk directory'' e), p, w)
                     | (None, w) \<Rightarrow> getOrInstallImageToDisk l ev quiet config p w)
                  of (r, p', w) \<Rightarrow> (r, p', snd (lock_Unlock ev (Directory p) w)))))"

definition Cleanup :: "env \<Rightarrow> BootcDisk \<Rightarrow> world \<Rightarrow> unit res \<times> world" where
  "Cleanup ev p w =
     (if bootcInstallContainerId p \<noteq> [] then
        (case containers_Remove ev (bootcInstallContainerId p) of
           Some e \<Rightarrow>
             (Err (Wrap ''failed to remove bootc install container'' e),
              emit (EvContainerRemove (bootcInstallContainerId p)) False w)
         | None \<Rightarrow> (Ok (), emit (EvContainerRemove (bootcInstallContainerId p)) True w))
      else (Ok (), w))"

definition GetDirectory :: "BootcDisk \<Rightarrow> string" where
  "GetDirectory p = Directory p"

definition GetImageId :: "BootcDisk \<Rightarrow> string" where
  "GetImageId p = ImageId p"

text \<open>GetSize: \<open>os.Stat\<close> of the disk image; the error when there is no such file.\<close>

definition GetSize :: "lib \<Rightarrow> BootcDisk \<Rightarrow> world \<Rightarrow> error + int" where
  "GetSize l p w =
     (case fs w (filepath_Join (Directory p) (config_DiskImage l)) of
        None \<Rightarrow> Inl (Errno ''ENOENT'')
      | Some st \<Rightarrow> Inr (fsize st))"

definition GetRepoTag :: "BootcDisk \<Rightarrow> string" where
  "GetRepoTag p = RepoTag p"

definition GetCreatedAt :: "BootcDisk \<Rightarrow> nat" where
  "GetCreatedAt p = CreatedAt p"

subsection \<open>Reading the trace\<close>

text \<open>
  The calls runInstallContainer makes: the losetup wrapper (created, written, made
  executable, removed) and the container (created, started, attached, waited for).
\<close>

fun session_call :: "call \<Rightarrow> bool" where
  "session_call (EvCreateTemp d pat) = (pat = ''losetup-wrapper'')"
| "session_call (EvCopy f) = True"
| "session_call (EvChmod f) = True"
| "session_call (EvCreateWithSpec s) = True"
| "session_call (EvStart c) = True"
| "session_call (EvAttach c) = True"
| "session_call (EvWait c) = True"
| "session_call (EvRemove f) = True"
| "session_call c = False"

text \<open>The external install has run when the install container was started.\<close>

fun is_Start :: "event \<Rightarrow> bool" where
  "is_Start (EvStart c, ok) = True"
| "is_Start e = False"

text \<open>The events a call added to the trace: those of \<open>w'\<close> that \<open>w\<close> has not.\<close>

definition new_events :: "world \<Rightarrow> world \<Rightarrow> event list" where
  "new_events w w' = drop (length (trace w)) (trace w')"

text \<open>A build was started: bootcInstallImageToDisk's first call was made.\<close>

definition build_attempted :: "string \<Rightarrow> event list \<Rightarrow> bool" where
  "build_attempted dir evs =
     (EvCreateTemp dir ''podman-bootc-tempdisk'' \<in> fst ` set evs)"



subsection \<open>A concrete library and environment\<close>

text \<open>
  Stand-ins for the libraries and the outside, on which the theorems below are run:
  a codec that writes \<open>{"imageDigest":"<digest>"}\<close> and reads exactly that back, a
  size parser for digits followed by a decimal unit, podman answering with one image
  of 5 GiB, and system calls that all succeed.
\<close>

definition demo_quote :: char where
  "demo_quote = CHR 0x22"

definition demo_prefix :: string where
  "demo_prefix = ''{'' @ [demo_quote] @ ''imageDigest'' @ [demo_quote] @ '':'' @ [demo_quote]"

definition demo_stamp :: "string \<Rightarrow> bytes" where
  "demo_stamp d = demo_prefix @ d @ [demo_quote] @ ''}''"

definition demo_Marshal :: "diskFromContainerMeta \<Rightarrow> error + bytes" where
  "demo_Marshal m = Inr (demo_stamp (ImageDigest m))"

definition demo_Unmarshal :: "bytes \<Rightarrow> error + diskFromContainerMeta" where
  "demo_Unmarshal b =
     (let n = length demo_prefix;
          d = take (length b - n - 2) (drop n b)
      in if n + 2 \<le> length b \<and> take n b = demo_prefix \<and>
            drop (length b - 2) b = [demo_quote] @ ''}'' \<and> demo_quote \<notin> set d
         then Inr \<lparr>ImageDigest = d\<rparr>
         else Inl (Errno ''invalid character''))"

fun digits_value :: "nat \<Rightarrow> string \<Rightarrow> nat" where
  "digits_value acc [] = acc"
| "digits_value acc (c # cs) = digits_value (acc * 10 + (of_char c - 48)) cs"

definition demo_FromHumanSize :: "string \<Rightarrow> error + int" where
  "demo_FromHumanSize s =
     (let ds = takeWhile (\<lambda>c. c \<in> set ''0123456789'') s;
          u = dropWhile (\<lambda>c. c \<in> set ''0123456789'') s;
          n = int (digits_value 0 ds)
      in if ds = [] then Inl (Errno ''invalid size'')
         else if u = [] then Inr (wrap64 n)
         else if u = ''kB'' then Inr (wrap64 (n * 1000))
         else if u = ''MB'' then Inr (wrap64 (n * 1000000))
         else if u = ''GB'' then Inr (wrap64 (n * 1000000000))
         else Inl (Errno ''invalid size''))"

definition demo_lib :: lib where
  "demo_lib =
     \<lparr>json_Marshal = demo_Marshal, json_Unmarshal = demo_Unmarshal,
      units_FromHumanSize = demo_FromHumanSize, config_DiskImage = ''disk.raw''\<rparr>"

definition demo_image :: ImageInspectReport where
  "demo_image = \<lparr>Size = 5 * 1024 * 1024 * 1024, RepoTags = [''quay.io/example/os:latest'']\<rparr>"

definition demo_env :: env where
  "demo_env =
     \<lparr>time_Now = 1,
      images_Pull = (\<lambda>n. Inr [''abc'']),
      images_GetImage = (\<lambda>n. Inr demo_image),
      TryLock_fault = None, Unlock_fault = None, MkdirAll_fault = None, Open_fault = None,
      CreateTemp_rand = (\<lambda>pat. Inr ''42''),
      Ftruncate_fault = None, Copy_fault = None, Chmod_fault = None,
      LookupEnv = (\<lambda>v. None),
      containers_CreateWithSpec = (\<lambda>s. Inr ''c1''),
      containers_Start = (\<lambda>c. None),
      containers_Attach = (\<lambda>c. None),
      containers_Wait = (\<lambda>c. Inr 0),
      containers_Remove = (\<lambda>c. None),
      Fsetxattr_fault = None, Rename_fault = None\<rparr>"

definition demo_user :: user_User where
  "demo_user = \<lparr>CacheDir = ''/cache'', RunDir = ''/run''\<rparr>"

definition demo_config :: DiskImageConfig where
  "demo_config = \<lparr>Filesystem = [], RootSizeMax = [], DiskSize = []\<rparr>"

definition demo_disk :: BootcDisk where
  "demo_disk = new_BootcDisk ''quay.io/example/os'' 0 demo_user"

text \<open>The disk manager once pullImage has resolved the image and Install has set the directory.\<close>

definition demo_resolved :: BootcDisk where
  "demo_resolved =
     demo_disk\<lparr>ImageId := ''abc'', imageData := Some demo_image,
       RepoTag := ''quay.io/example/os:latest'', CreatedAt := 1, Directory := ''/cache/abc''\<rparr>"

definition world_init :: world where
  "world_init = \<lparr>fs = (\<lambda>path. None), locks = (\<lambda>dir. Free), trace = []\<rparr>"

text \<open>A world whose cache directory for image \<open>abc\<close> holds a disk image with the given attribute.\<close>

definition world_with :: "bytes option \<Rightarrow> world" where
  "world_with a =
     \<lparr>fs = (\<lambda>path. if path = ''/cache/abc/disk.raw''
                     then Some \<lparr>fsize = 10737418240, xattr = a\<rparr> else None),
      locks = (\<lambda>dir. Free), trace = []\<rparr>"

text \<open>Scenarios: what the outside answers differently from \<open>demo_env\<close>.\<close>

definition demo_env_exit1 :: env where
  "demo_env_exit1 = demo_env\<lparr>containers_Wait := (\<lambda>c. Inr 1)\<rparr>"

definition demo_env_no_ids :: env where
  "demo_env_no_ids = demo_env\<lparr>images_Pull := (\<lambda>n. Inr [])\<rparr>"

definition demo_image_two_tags :: ImageInspectReport where
  "demo_image_two_tags =
     demo_image\<lparr>RepoTags := [''quay.io/example/os:latest'', ''quay.io/example/os:v1'']\<rparr>"

definition demo_env_two_tags :: env where
  "demo_env_two_tags = demo_env\<lparr>images_GetImage := (\<lambda>n. Inr demo_image_two_tags)\<rparr>"

definition demo_config_bad_size :: DiskImageConfig where
  "demo_config_bad_size = demo_config\<lparr>DiskSize := ''abc''\<rparr>"





text \<open>A world in which another process holds every cache lock.\<close>

definition world_busy :: world where
  "world_busy = world_init\<lparr>locks := (\<lambda>dir. Other)\<rparr>"

section \<open>Aligning sizes\<close>

lemma wrap64_id: "- (2 ^ 63) \<le> x \<Longrightarrow> x < 2 ^ 63 \<Longrightarrow> wrap64 x = x"
  unfolding wrap64_def by (simp add: mod_pos_pos_trivial)

lemma go_rem_nonneg: "0 \<le> a \<Longrightarrow> 0 < b \<Longrightarrow> go_rem a b = a mod b"
  unfolding go_rem_def by (cases "a = 0") auto

lemma align_4096:
  assumes "0 \<le> sz" "sz \<le> 2 ^ 63 - 4096"
  shows "\<exists>r. align sz 4096 = Ok r \<and> sz \<le> r \<and> r < sz + 4096 \<and> r mod 4096 = 0"
proof -
  let ?rem = "sz mod 4096"
  have rem: "go_rem sz 4096 = ?rem" using assms by (simp add: go_rem_nonneg)
  show ?thesis
  proof (cases "?rem = 0")
    case True
    then show ?thesis using rem by (simp add: align_def)
  next
    case False
    have lt: "?rem \<le> 4096 \<and> 0 < ?rem"
      using False pos_mod_sign[of 4096 sz] pos_mod_bound[of 4096 sz] by linarith
    have w1: "wrap64 (4096 - ?rem) = 4096 - ?rem"
      using lt by (intro wrap64_id) simp_all
    have w2: "wrap64 (sz + (4096 - ?rem)) = sz + (4096 - ?rem)"
      using lt assms by (intro wrap64_id) simp_all
    have "sz + (4096 - ?rem) = 4096 * (sz div 4096) + 4096"
      using mult_div_mod_eq[of 4096 sz] by (simp add: algebra_simps)
    then have m: "(sz + (4096 - ?rem)) mod 4096 = 0"
      by (simp only: mod_add_self2 mod_mult_self1_is_0)
    show ?thesis using rem False lt w1 w2 m by (simp add: align_def Let_def)
  qed
qed

section \<open>The singleton constructor\<close>

lemma NewBootcDisk_calls_done:
  "instanceOnce g \<Longrightarrow> NewBootcDisk_calls cs g = (rs, g') \<Longrightarrow>
     g' = g \<and> length rs = length cs \<and> (\<forall>r\<in>set rs. r = instance_ptr g)"
proof (induction cs arbitrary: rs g')
  case Nil
  then show ?case by simp
next
  case (Cons a cs)
  obtain n c u where a: "a = (n, c, u)" by (cases a)
  obtain rs' g'' where rest: "NewBootcDisk_calls cs g = (rs', g'')"
    by (cases "NewBootcDisk_calls cs g")
  from Cons.prems a rest have "rs = instance_ptr g # rs'" "g' = g''"
    by (simp_all add: NewBootcDisk_def)
  with Cons.IH[OF Cons.prems(1) rest] show ?case by simp
qed

text \<open>
  C10: the constructor is a process-wide singleton that ignores later arguments. From
  a state in which \<open>instanceOnce\<close> has not run, every call of a sequence of calls
  returns the same pointer, the one allocated by the first call, and the object it
  points to has the image name, context and user of the first call's arguments,
  whatever the later calls pass.
\<close>

theorem NewBootcDisk_singleton:
  assumes "\<not> instanceOnce g0"
    and "NewBootcDisk_calls ((n, c, u) # cs) g0 = (rs, g)"
  shows "length rs = Suc (length cs) \<and> (\<forall>r\<in>set rs. r = Some (length (heap g0))) \<and>
         instance_ptr g = Some (length (heap g0)) \<and>
         heap g ! length (heap g0) = new_BootcDisk n c u \<and>
         ImageNameOrId (heap g ! length (heap g0)) = n \<and>
         Ctx (heap g ! length (heap g0)) = c \<and>
         User (heap g ! length (heap g0)) = u"
proof -
  define g1 where "g1 = g0\<lparr>heap := heap g0 @ [new_BootcDisk n c u],
                       instance_ptr := Some (length (heap g0)), instanceOnce := True\<rparr>"
  have first: "NewBootcDisk n c u g0 = (Some (length (heap g0)), g1)"
    using assms(1) by (simp add: NewBootcDisk_def g1_def)
  obtain rs' g' where rest: "NewBootcDisk_calls cs g1 = (rs', g')"
    by (cases "NewBootcDisk_calls cs g1")
  have once: "instanceOnce g1" by (simp add: g1_def)
  from NewBootcDisk_calls_done[OF once rest]
  have d: "g' = g1" "length rs' = length cs" "\<forall>r\<in>set rs'. r = instance_ptr g1" by simp_all
  from assms(2) first rest have r: "rs = Some (length (heap g0)) # rs'" "g = g'" by simp_all
  show ?thesis using d r by (simp add: g1_def new_BootcDisk_def)
qed

theorem NewBootcDisk_singleton_witness:
  "fst (NewBootcDisk_calls [(''a'', 1, demo_user), (''b'', 2, \<lparr>CacheDir = ''/x'', RunDir = ''/y''\<rparr>)]
          globals_init) = [Some 0, Some 0] \<and>
   ImageNameOrId (heap (snd (NewBootcDisk_calls
       [(''a'', 1, demo_user), (''b'', 2, \<lparr>CacheDir = ''/x'', RunDir = ''/y''\<rparr>)] globals_init)) ! 0) = ''a'' \<and>
   Ctx (heap (snd (NewBootcDisk_calls
       [(''a'', 1, demo_user), (''b'', 2, \<lparr>CacheDir = ''/x'', RunDir = ''/y''\<rparr>)] globals_init)) ! 0) = 1 \<and>
   User (heap (snd (NewBootcDisk_calls
       [(''a'', 1, demo_user), (''b'', 2, \<lparr>CacheDir = ''/x'', RunDir = ''/y''\<rparr>)] globals_init)) ! 0) = demo_user"
proof -
  let ?cs = "[(''b'', 2::nat, \<lparr>CacheDir = ''/x'', RunDir = ''/y''\<rparr>)]"
  obtain rs g where run: "NewBootcDisk_calls ((''a'', 1, demo_user) # ?cs) globals_init = (rs, g)"
    by (cases "NewBootcDisk_calls ((''a'', 1, demo_user) # ?cs) globals_init")
  have n: "\<not> instanceOnce globals_init" by (simp add: globals_init_def)
  have h: "heap globals_init = []" by (simp add: globals_init_def)
  from NewBootcDisk_singleton[OF n run]
  have f: "length rs = 2" "\<forall>r\<in>set rs. r = Some 0" "ImageNameOrId (heap g ! 0) = ''a''"
    "Ctx (heap g ! 0) = 1" "User (heap g ! 0) = demo_user"
    by (simp_all add: h new_BootcDisk_def)
  from f(1,2) have rs: "rs = [Some 0, Some 0]"
    by (cases rs; cases "tl rs"; cases "tl (tl rs)") auto
  show ?thesis unfolding run fst_conv snd_conv using f(3,4,5) rs by simp
qed

section \<open>What the system calls and the installer session leave behind\<close>

lemmas model_defs = Install_def pullImage_def lock_TryLock_def lock_Unlock_def
  getOrInstallImageToDisk_def bootcInstallImageToDisk_def bootcInstallImageToDisk_publish_def
  runInstallContainer_def runInstallContainer_run_def createInstallContainer_def
  os_Open_def os_Close_def unix_Fgetxattr_def os_Remove_def os_CreateTemp_def
  syscall_Ftruncate_def unix_Fsetxattr_def os_Rename_def os_MkdirAll_def io_Copy_def
  file_Chmod_def emit_def filepath_Join_def filepath_Base_def computeSize_def align_def
  go_rem_def wrap64_def containerSizeToDiskSizeMultiplier_def diskSizeMinimum_def
  imageMetaXattr_def new_events_def

lemmas demo_defs = demo_lib_def demo_env_def demo_user_def demo_config_def demo_disk_def
  demo_image_def world_init_def new_BootcDisk_def demo_Marshal_def
  demo_Unmarshal_def demo_FromHumanSize_def demo_prefix_def demo_quote_def demo_stamp_def

lemma os_CreateTemp_Inl:
  "os_CreateTemp ev d pat w = (Inl e, w1) \<Longrightarrow> w1 = emit (EvCreateTemp d pat) False w"
  by (auto simp: os_CreateTemp_def Let_def split: sum.splits if_splits)

lemma os_CreateTemp_Inr:
  "os_CreateTemp ev d pat w = (Inr t, w1) \<Longrightarrow>
     fs w t = None \<and>
     w1 = emit (EvCreateTemp d pat) True (w\<lparr>fs := (fs w)(t \<mapsto> \<lparr>fsize = 0, xattr = None\<rparr>)\<rparr>)"
  by (auto simp: os_CreateTemp_def Let_def split: sum.splits if_splits)

lemma syscall_Ftruncate_Some:
  "syscall_Ftruncate ev t sz w = (Some e, w1) \<Longrightarrow> w1 = emit (EvFtruncate t sz) False w"
  by (auto simp: syscall_Ftruncate_def split: option.splits if_splits)

lemma syscall_Ftruncate_None:
  "syscall_Ftruncate ev t sz w = (None, w1) \<Longrightarrow>
     w1 = emit (EvFtruncate t sz) True
            (w\<lparr>fs := (fs w)(t := map_option (\<lambda>f. f\<lparr>fsize := sz\<rparr>) (fs w t))\<rparr>)"
  by (auto simp: syscall_Ftruncate_def split: option.splits if_splits)

lemma createInstallContainer_frame:
  "createInstallContainer ev c t p w = (r, w') \<Longrightarrow>
     fs w' = fs w \<and> locks w' = locks w \<and>
     (case r of Ok i \<Rightarrow> (\<exists>s. trace w' = trace w @ [(EvCreateWithSpec s, True)])
            | Err e \<Rightarrow> (\<exists>s. trace w' = trace w @ [(EvCreateWithSpec s, False)])
            | Panic m \<Rightarrow> trace w' = trace w)"
  by (auto simp: createInstallContainer_def Let_def emit_def split: option.splits sum.splits)

lemma runInstallContainer_run_frame:
  "runInstallContainer_run ev q p w = (r, p', w') \<Longrightarrow>
     fs w' = fs w \<and> locks w' = locks w \<and> p' = p \<and>
     (\<exists>evs. trace w' = trace w @ evs \<and> list_all (\<lambda>e. session_call (fst e)) evs \<and>
        (r = Ok () \<longrightarrow> length (filter is_Start evs) = 1))"
  by (auto simp: runInstallContainer_run_def Let_def emit_def split: option.splits sum.splits if_splits)

lemma runInstallContainer_frame:
  assumes "runInstallContainer ev q c p w = (r, p', w')"
  shows "fs w' = fs w \<and> locks w' = locks w \<and>
     p' = p\<lparr>bootcInstallContainerId := bootcInstallContainerId p'\<rparr> \<and>
     (\<exists>evs. trace w' = trace w @ evs \<and> list_all (\<lambda>e. session_call (fst e)) evs \<and>
        (r = Ok () \<longrightarrow> length (filter is_Start evs) = 1))"
proof -
  let ?CT = "EvCreateTemp (Directory p) ''losetup-wrapper''"
  obtain a w1 where ct: "os_CreateTemp ev (Directory p) ''losetup-wrapper'' w = (a, w1)"
    by (cases "os_CreateTemp ev (Directory p) ''losetup-wrapper'' w")
  show ?thesis
  proof (cases a)
    case (Inl e)
    have "w1 = emit ?CT False w" using ct Inl os_CreateTemp_Inl by simp
    moreover have "r = Err (Wrap ''temp losetup wrapper'' e)" "p' = p" "w' = w1"
      using assms ct Inl by (simp_all add: runInstallContainer_def)
    moreover have "list_all (\<lambda>e. session_call (fst e)) [(?CT, False)]" by simp
    ultimately show ?thesis by (auto simp: emit_def)
  next
    case (Inr t)
    have t: "fs w t = None" and w1d: "w1 = emit ?CT True (w\<lparr>fs := (fs w)(t \<mapsto> \<lparr>fsize = 0, xattr = None\<rparr>)\<rparr>)"
      using ct Inr os_CreateTemp_Inr by blast+
    have w1: "fs w1 = (fs w)(t \<mapsto> \<lparr>fsize = 0, xattr = None\<rparr>)" "locks w1 = locks w"
      "trace w1 = trace w @ [(?CT, True)]"
      by (simp_all add: w1d emit_def)
    define B where "B = (case io_Copy ev t w1 of
                (Some e, w) \<Rightarrow> (Err (Wrap ''temp losetup wrapper copy'' e), p, w)
              | (None, w) \<Rightarrow>
                  (case file_Chmod ev t w of
                     (Some e, w) \<Rightarrow> (Err (Wrap ''temp losetup wrapper chmod'' e), p, w)
                   | (None, w) \<Rightarrow>
                       (case createInstallContainer ev c t p w of
                          (Panic m, w) \<Rightarrow> (Panic m, p, w)
                        | (Err e, w) \<Rightarrow> (Err (Wrap ''failed to create container'' e), p, w)
                        | (Ok cid, w) \<Rightarrow>
                            runInstallContainer_run ev q (p\<lparr>bootcInstallContainerId := cid\<rparr>) w)))"
    obtain r2 p2 w2 where body: "B = (r2, p2, w2)" by (cases B) auto
    have fin: "r = r2" "p' = p2" "w' = os_Remove t w2"
      using assms ct Inr body unfolding B_def runInstallContainer_def by simp_all
    have b: "fs w2 = fs w1 \<and> locks w2 = locks w1 \<and>
        p2 = p\<lparr>bootcInstallContainerId := bootcInstallContainerId p2\<rparr> \<and>
       (\<exists>evs. trace w2 = trace w1 @ evs \<and> list_all (\<lambda>e. session_call (fst e)) evs \<and>
        (r2 = Ok () \<longrightarrow> length (filter is_Start evs) = 1))"
    proof (cases "Copy_fault ev")
      case (Some e)
      then show ?thesis using body by (auto simp: B_def io_Copy_def emit_def)
    next
      case cp: None
      show ?thesis
      proof (cases "Chmod_fault ev")
        case (Some e)
        then show ?thesis using body cp by (auto simp: B_def io_Copy_def file_Chmod_def emit_def)
      next
        case ch: None
        define w3 where "w3 = emit (EvChmod t) True (emit (EvCopy t) True w1)"
        obtain rc wc where cic: "createInstallContainer ev c t p w3 = (rc, wc)"
          by (cases "createInstallContainer ev c t p w3") auto
        note f1 = createInstallContainer_frame[OF cic]
        have B2: "(case (rc, wc) of
                          (Panic m, w) \<Rightarrow> (Panic m, p, w)
                        | (Err e, w) \<Rightarrow> (Err (Wrap ''failed to create container'' e), p, w)
                        | (Ok cid, w) \<Rightarrow>
                            runInstallContainer_run ev q (p\<lparr>bootcInstallContainerId := cid\<rparr>) w) = (r2, p2, w2)"
          using body cp ch cic by (simp add: B_def io_Copy_def file_Chmod_def w3_def)
        have w3: "fs w3 = fs w1" "locks w3 = locks w1"
          "trace w3 = trace w1 @ [(EvCopy t, True), (EvChmod t, True)]"
          by (simp_all add: w3_def emit_def)
        show ?thesis
        proof (cases rc)
          case (Ok cid)
          with B2 have run: "runInstallContainer_run ev q (p\<lparr>bootcInstallContainerId := cid\<rparr>) wc = (r2, p2, w2)"
            by simp
          note f2 = runInstallContainer_run_frame[OF run]
          from f2 obtain evs where evs: "trace w2 = trace wc @ evs" "list_all (\<lambda>e. session_call (fst e)) evs"
             "r2 = Ok () \<longrightarrow> length (filter is_Start evs) = 1" by blast
          from f1 Ok obtain s where s: "trace wc = trace w3 @ [(EvCreateWithSpec s, True)]" by auto
          have tr: "trace w2 = trace w1 @ ([(EvCopy t, True), (EvChmod t, True), (EvCreateWithSpec s, True)] @ evs)"
            using evs s w3 by simp
          have "list_all (\<lambda>e. session_call (fst e)) ([(EvCopy t, True), (EvChmod t, True), (EvCreateWithSpec s, True)] @ evs)"
            using evs by simp
          moreover have "r2 = Ok () \<longrightarrow> length (filter is_Start ([(EvCopy t, True), (EvChmod t, True), (EvCreateWithSpec s, True)] @ evs)) = 1"
            using evs by simp
          moreover have "fs w2 = fs w1" "locks w2 = locks w1" using f1 f2 w3 by simp_all
          moreover have "p2 = p\<lparr>bootcInstallContainerId := bootcInstallContainerId p2\<rparr>"
            using f2 by simp
          ultimately show ?thesis using tr by blast
        next
          case (Err e)
          with B2 have e: "r2 = Err (Wrap ''failed to create container'' e)" "p2 = p" "w2 = wc" by simp_all
          from f1 Err obtain s where s: "trace wc = trace w3 @ [(EvCreateWithSpec s, False)]" by auto
          have tr: "trace w2 = trace w1 @ [(EvCopy t, True), (EvChmod t, True), (EvCreateWithSpec s, False)]"
            using e s w3 by simp
          have "list_all (\<lambda>e. session_call (fst e)) [(EvCopy t, True), (EvChmod t, True), (EvCreateWithSpec s, False)]"
            by simp
          then show ?thesis using tr e f1 w3 by auto
        next
          case (Panic m)
          with B2 have e: "r2 = Panic m" "p2 = p" "w2 = wc" by simp_all
          from f1 Panic have s: "trace wc = trace w3" by auto
          have tr: "trace w2 = trace w1 @ [(EvCopy t, True), (EvChmod t, True)]"
            using e s w3 by simp
          have "list_all (\<lambda>e. session_call (fst e)) [(EvCopy t, True), (EvChmod t, True)]"
            by simp
          then show ?thesis using tr e f1 w3 by auto
        qed
      qed
    qed
    then obtain evs where evs: "trace w2 = trace w1 @ evs" "list_all (\<lambda>e. session_call (fst e)) evs"
        "r2 = Ok () \<longrightarrow> length (filter is_Start evs) = 1" by blast
    have "fs w' = fs w" using fin b w1 t by (auto simp: os_Remove_def emit_def)
    moreover have "locks w' = locks w" using fin b w1 by (auto simp: os_Remove_def emit_def)
    moreover have "trace w' = trace w @ ((?CT, True) # evs @ [(EvRemove t, fs w2 t \<noteq> None)])"
      using fin evs w1 by (simp add: os_Remove_def emit_def)
    moreover have "list_all (\<lambda>e. session_call (fst e)) ((?CT, True) # evs @ [(EvRemove t, fs w2 t \<noteq> None)])"
      using evs by simp
    moreover have "r = Ok () \<longrightarrow> length (filter is_Start ((?CT, True) # evs @ [(EvRemove t, fs w2 t \<noteq> None)])) = 1"
      using evs fin by simp
    ultimately show ?thesis using b fin by blast
  qed
qed

section \<open>The outcomes of bootcInstallImageToDisk\<close>

text \<open>
  Every run of bootcInstallImageToDisk ends in one of four ways: the temporary file
  could not be created; it was created and the function returned before its
  \<open>defer\<close> (the file stays); the function failed after the \<open>defer\<close> (the file
  is removed, the file system is as before); or the disk image was published.
\<close>

lemma bootcInstallImageToDisk_fields:
  assumes "bootcInstallImageToDisk l ev q c p w = (r, p', w')"
  shows "p' = p\<lparr>p_file := p_file p', bootcInstallContainerId := bootcInstallContainerId p'\<rparr>"
proof -
  have k: "\<And>pa x (rr::unit res) pb wa wb. runInstallContainer ev q c (pa\<lparr>p_file := x\<rparr>) wa = (rr, pb, wb) \<Longrightarrow>
     pb = pa\<lparr>p_file := p_file pb, bootcInstallContainerId := bootcInstallContainerId pb\<rparr>"
  proof -
    fix pa x and rr :: "unit res" and pb wa wb
    assume "runInstallContainer ev q c (pa\<lparr>p_file := x\<rparr>) wa = (rr, pb, wb)"
    from runInstallContainer_frame[OF this]
    have "pb = pa\<lparr>p_file := x, bootcInstallContainerId := bootcInstallContainerId pb\<rparr>" by simp
    then show "pb = pa\<lparr>p_file := p_file pb, bootcInstallContainerId := bootcInstallContainerId pb\<rparr>"
      by (metis (no_types) BootcDisk.select_convs(9) BootcDisk.surjective BootcDisk.update_convs(10) BootcDisk.update_convs(9))
  qed
  show ?thesis
    using assms
    by (auto simp: bootcInstallImageToDisk_def bootcInstallImageToDisk_publish_def Let_def
        split: prod.splits sum.splits option.splits res.splits if_splits dest!: k)
qed


lemma unix_Fsetxattr_Some:
  "unix_Fsetxattr ev t n b w = (Some e, w1) \<Longrightarrow> w1 = emit (EvFsetxattr t n b) False w"
  by (auto simp: unix_Fsetxattr_def split: option.splits)

lemma unix_Fsetxattr_None:
  "unix_Fsetxattr ev t n b w = (None, w1) \<Longrightarrow>
     w1 = emit (EvFsetxattr t n b) True
            (w\<lparr>fs := (fs w)(t := map_option (\<lambda>f. f\<lparr>xattr := Some b\<rparr>) (fs w t))\<rparr>)"
  by (auto simp: unix_Fsetxattr_def split: option.splits)

lemma os_Rename_Some:
  "os_Rename ev s d w = (Some e, w1) \<Longrightarrow> w1 = emit (EvRename s d) False w"
  by (auto simp: os_Rename_def split: option.splits)

lemma os_Rename_None:
  "os_Rename ev s d w = (None, w1) \<Longrightarrow>
     \<exists>f. fs w s = Some f \<and> w1 = emit (EvRename s d) True (w\<lparr>fs := ((fs w)(s := None))(d \<mapsto> f)\<rparr>)"
  by (auto simp: os_Rename_def split: option.splits)

lemma bootcInstallImageToDisk_p_file:
  assumes "bootcInstallImageToDisk l ev q c p w = (r, p', w')"
    and "os_CreateTemp ev (Directory p) ''podman-bootc-tempdisk'' w = (Inr tmp, w1)"
  shows "p_file p' = Some tmp"
proof -
  have k: "\<And>pa (rr::unit res) pb wa wb. runInstallContainer ev q c pa wa = (rr, pb, wb) \<Longrightarrow>
     p_file pb = p_file pa"
  proof -
    fix pa and rr :: "unit res" and pb wa wb
    assume "runInstallContainer ev q c pa wa = (rr, pb, wb)"
    from runInstallContainer_frame[OF this]
    have "pb = pa\<lparr>bootcInstallContainerId := bootcInstallContainerId pb\<rparr>" by simp
    then show "p_file pb = p_file pa"
      by (metis (no_types) BootcDisk.select_convs(9) BootcDisk.surjective BootcDisk.update_convs(10))
  qed
  show ?thesis
    using assms
    by (auto simp: bootcInstallImageToDisk_def bootcInstallImageToDisk_publish_def Let_def
        split: prod.splits sum.splits option.splits res.splits if_splits dest!: k)
qed

lemma bootcInstallImageToDisk_outcomes:
  assumes run: "bootcInstallImageToDisk l ev q c p w = (r, p', w')"
  obtains
    (temp_failed) e where
      "r = Err e" "fs w' = fs w" "locks w' = locks w"
      "trace w' = trace w @ [(EvCreateTemp (Directory p) ''podman-bootc-tempdisk'', False)]"
  | (left_behind) tmp evs where
      "r \<noteq> Ok ()" "fs w tmp = None" "fs w' = (fs w)(tmp \<mapsto> \<lparr>fsize = 0, xattr = None\<rparr>)"
      "locks w' = locks w" "p_file p' = Some tmp"
      "trace w' = trace w @ (EvCreateTemp (Directory p) ''podman-bootc-tempdisk'', True) # evs"
      "evs = [] \<or>
       (\<exists>sz img. imageData p = Some img \<and> computeSize l (Size img) (DiskSize c) = Ok sz \<and>
                 evs = [(EvFtruncate tmp sz, False)])"
  | (cleaned) tmp sz sevs tl img where
      "r \<noteq> Ok ()" "fs w tmp = None" "fs w' = fs w" "locks w' = locks w" "p_file p' = Some tmp"
      "trace w' = trace w @ (EvCreateTemp (Directory p) ''podman-bootc-tempdisk'', True) #
          (EvFtruncate tmp sz, True) # sevs @ tl @ [(EvRemove tmp, True)]"
      "list_all (\<lambda>e. session_call (fst e)) sevs"
      "tl = [] \<or>
       (\<exists>buf e. json_Marshal l \<lparr>ImageDigest = ImageId p\<rparr> = Inr buf \<and>
                tl = [(EvFsetxattr tmp imageMetaXattr buf, False)] \<and>
                r = Err (Wrap ''failed to set xattr'' e)) \<or>
       (\<exists>buf e. json_Marshal l \<lparr>ImageDigest = ImageId p\<rparr> = Inr buf \<and>
                tl = [(EvFsetxattr tmp imageMetaXattr buf, True),
                      (EvRename tmp (filepath_Join (Directory p) (config_DiskImage l)), False)] \<and>
                r = Err (Wrap (''failed to rename to '' @ filepath_Join (Directory p) (config_DiskImage l)) e))"
      "imageData p = Some img" "computeSize l (Size img) (DiskSize c) = Ok sz"
  | (published) tmp sz buf sevs img where
      "r = Ok ()" "fs w tmp = None" "p_file p' = Some tmp"
      "fs w' = ((fs w)(tmp := None))
                 (filepath_Join (Directory p) (config_DiskImage l) \<mapsto> \<lparr>fsize = sz, xattr = Some buf\<rparr>)"
      "locks w' = locks w"
      "json_Marshal l \<lparr>ImageDigest = ImageId p\<rparr> = Inr buf"
      "imageData p = Some img" "computeSize l (Size img) (DiskSize c) = Ok sz"
      "trace w' = trace w @ (EvCreateTemp (Directory p) ''podman-bootc-tempdisk'', True) #
          (EvFtruncate tmp sz, True) # sevs @
          [(EvFsetxattr tmp imageMetaXattr buf, True),
           (EvRename tmp (filepath_Join (Directory p) (config_DiskImage l)), True)]"
      "list_all (\<lambda>e. session_call (fst e)) sevs"
      "length (filter is_Start sevs) = 1"
proof -
  let ?CT = "EvCreateTemp (Directory p) ''podman-bootc-tempdisk''"
  let ?dp = "filepath_Join (Directory p) (config_DiskImage l)"
  obtain a w1 where ct: "os_CreateTemp ev (Directory p) ''podman-bootc-tempdisk'' w = (a, w1)"
    by (cases "os_CreateTemp ev (Directory p) ''podman-bootc-tempdisk'' w")
  show thesis
  proof (cases a)
    case (Inl e)
    have "w1 = emit ?CT False w" using ct Inl os_CreateTemp_Inl by simp
    moreover have "r = Err e" "w' = w1"
      using run ct Inl by (simp_all add: bootcInstallImageToDisk_def)
    ultimately show thesis by (intro temp_failed[of e]) (simp_all add: emit_def)
  next
    case (Inr tmp)
    have t: "fs w tmp = None"
      and w1d: "w1 = emit ?CT True (w\<lparr>fs := (fs w)(tmp \<mapsto> \<lparr>fsize = 0, xattr = None\<rparr>)\<rparr>)"
      using ct Inr os_CreateTemp_Inr by blast+
    have w1: "fs w1 = (fs w)(tmp \<mapsto> \<lparr>fsize = 0, xattr = None\<rparr>)" "locks w1 = locks w"
      "trace w1 = trace w @ [(?CT, True)]"
      by (simp_all add: w1d emit_def)
    have pf: "p_file p' = Some tmp"
      using bootcInstallImageToDisk_p_file[OF run] ct Inr by simp
    define p1 where "p1 = p\<lparr>p_file := Some tmp\<rparr>"
    have p1: "imageData p1 = imageData p" "Directory p1 = Directory p" "ImageId p1 = ImageId p"
      by (simp_all add: p1_def)
    show thesis
    proof (cases "imageData p")
      case None
      have "r = Panic ''nil pointer dereference''" "w' = w1"
        using run ct Inr None by (simp_all add: bootcInstallImageToDisk_def)
      then show thesis using t w1 pf by (intro left_behind[of tmp "[]"]) simp_all
    next
      case (Some img)
      show thesis
      proof (cases "computeSize l (Size img) (DiskSize c)")
        case (Panic m)
        have "r = Panic m" "w' = w1"
          using run ct Inr Some Panic by (simp_all add: bootcInstallImageToDisk_def)
        then show thesis using t w1 pf by (intro left_behind[of tmp "[]"]) simp_all
      next
        case (Err e)
        have "r = Err e" "w' = w1"
          using run ct Inr Some Err by (simp_all add: bootcInstallImageToDisk_def)
        then show thesis using t w1 pf by (intro left_behind[of tmp "[]"]) simp_all
      next
        case (Ok sz)
        obtain te w2 where ft: "syscall_Ftruncate ev tmp sz w1 = (te, w2)"
          by (cases "syscall_Ftruncate ev tmp sz w1")
        show thesis
        proof (cases te)
          case (Some e)
          have "w2 = emit (EvFtruncate tmp sz) False w1"
            using ft Some syscall_Ftruncate_Some by simp
          moreover have "r = Err e" "w' = w2"
            using run ct Inr \<open>imageData p = Some img\<close> Ok ft Some
            by (simp_all add: bootcInstallImageToDisk_def)
          ultimately show thesis using t w1 pf \<open>imageData p = Some img\<close> Ok
            by (intro left_behind[of tmp "[(EvFtruncate tmp sz, False)]"]) (simp_all add: emit_def)
        next
          case None
          have w2d: "w2 = emit (EvFtruncate tmp sz) True
                (w1\<lparr>fs := (fs w1)(tmp := map_option (\<lambda>f. f\<lparr>fsize := sz\<rparr>) (fs w1 tmp))\<rparr>)"
            using ft None syscall_Ftruncate_None by simp
          have w2: "fs w2 = (fs w)(tmp \<mapsto> \<lparr>fsize = sz, xattr = None\<rparr>)" "locks w2 = locks w"
            "trace w2 = trace w @ [(?CT, True), (EvFtruncate tmp sz, True)]"
            by (simp_all add: w2d w1 emit_def)
          obtain r3 p3 w3 d where pub:
            "bootcInstallImageToDisk_publish l ev q c tmp p1 w2 = (r3, p3, w3, d)"
            by (cases "bootcInstallImageToDisk_publish l ev q c tmp p1 w2")
          have fin: "r = r3" "w' = (if d then os_Remove tmp w3 else w3)"
            using run ct Inr \<open>imageData p = Some img\<close> Ok ft None pub
            by (simp_all add: bootcInstallImageToDisk_def p1_def)
          obtain rr p4 w4 where ses: "runInstallContainer ev q c p1 w2 = (rr, p4, w4)"
            by (cases "runInstallContainer ev q c p1 w2")
          from runInstallContainer_frame[OF ses] obtain sevs where
            w4: "fs w4 = fs w2" "locks w4 = locks w2" "trace w4 = trace w2 @ sevs"
              "list_all (\<lambda>e. session_call (fst e)) sevs"
              "rr = Ok () \<longrightarrow> length (filter is_Start sevs) = 1"
            and p4: "p4 = p1\<lparr>bootcInstallContainerId := bootcInstallContainerId p4\<rparr>"
            by blast
          have p4f: "ImageId p4 = ImageId p" "Directory p4 = Directory p"
            by (subst p4, simp add: p1_def)+
          have clean: "fs (os_Remove tmp w4) = fs w" "locks (os_Remove tmp w4) = locks w"
            "trace (os_Remove tmp w4) = trace w @ (?CT, True) # (EvFtruncate tmp sz, True) # sevs @ [] @ [(EvRemove tmp, True)]"
            using w4 w2 t by (auto simp: os_Remove_def emit_def)
          show thesis
          proof (cases "rr = Ok ()")
            case False
            have "r3 \<noteq> Ok () \<and> w3 = w4 \<and> d"
              using pub ses False
              by (cases rr) (auto simp: bootcInstallImageToDisk_publish_def)
            then show thesis using fin clean w4(4) t pf \<open>imageData p = Some img\<close> Ok
              by (intro cleaned[of tmp sz sevs "[]" img]) simp_all
          next
            case True
            note rok = True
            show thesis
            proof (cases "json_Marshal l \<lparr>ImageDigest = ImageId p\<rparr>")
              case (Inl e)
              have "r3 \<noteq> Ok () \<and> w3 = w4 \<and> d"
                using pub ses rok Inl p4f
                by (auto simp: bootcInstallImageToDisk_publish_def)
              then show thesis using fin clean w4(4) t pf \<open>imageData p = Some img\<close> Ok
                by (intro cleaned[of tmp sz sevs "[]" img]) simp_all
            next
              case (Inr buf)
              obtain xe w5 where sx: "unix_Fsetxattr ev tmp imageMetaXattr buf w4 = (xe, w5)"
                by (cases "unix_Fsetxattr ev tmp imageMetaXattr buf w4")
              show thesis
              proof (cases xe)
                case (Some e)
                have w5: "w5 = emit (EvFsetxattr tmp imageMetaXattr buf) False w4"
                  using sx Some unix_Fsetxattr_Some by simp
                have "r3 = Err (Wrap ''failed to set xattr'' e)" "w3 = w5" "d"
                  using pub ses rok Inr p4f sx Some
                  by (auto simp: bootcInstallImageToDisk_publish_def)
                moreover have "fs (os_Remove tmp w5) = fs w" "locks (os_Remove tmp w5) = locks w"
                  "trace (os_Remove tmp w5) = trace w @ (?CT, True) # (EvFtruncate tmp sz, True) # sevs @
                     [(EvFsetxattr tmp imageMetaXattr buf, False)] @ [(EvRemove tmp, True)]"
                  using w4 w2 t w5 by (auto simp: os_Remove_def emit_def)
                ultimately show thesis using fin w4(4) t pf Inr \<open>imageData p = Some img\<close> Ok
                  by (intro cleaned[of tmp sz sevs "[(EvFsetxattr tmp imageMetaXattr buf, False)]" img]) simp_all
              next
                case None
                have w5d: "w5 = emit (EvFsetxattr tmp imageMetaXattr buf) True
                    (w4\<lparr>fs := (fs w4)(tmp := map_option (\<lambda>f. f\<lparr>xattr := Some buf\<rparr>) (fs w4 tmp))\<rparr>)"
                  using sx None unix_Fsetxattr_None by simp
                have w5: "fs w5 = (fs w)(tmp \<mapsto> \<lparr>fsize = sz, xattr = Some buf\<rparr>)" "locks w5 = locks w"
                  "trace w5 = trace w @ (?CT, True) # (EvFtruncate tmp sz, True) # sevs @
                     [(EvFsetxattr tmp imageMetaXattr buf, True)]"
                  using w4 w2 by (simp_all add: w5d emit_def)
                obtain re w6 where rn: "os_Rename ev tmp ?dp w5 = (re, w6)"
                  by (cases "os_Rename ev tmp ?dp w5")
                show thesis
                proof (cases re)
                  case (Some e)
                  have w6: "w6 = emit (EvRename tmp ?dp) False w5"
                    using rn Some os_Rename_Some by simp
                  have "r3 = Err (Wrap (''failed to rename to '' @ ?dp) e)" "w3 = w6" "d"
                    using pub ses rok Inr p4f sx None rn Some
                    by (auto simp: bootcInstallImageToDisk_publish_def Let_def)
                  moreover have "fs (os_Remove tmp w6) = fs w" "locks (os_Remove tmp w6) = locks w"
                    "trace (os_Remove tmp w6) = trace w @ (?CT, True) # (EvFtruncate tmp sz, True) # sevs @
                       [(EvFsetxattr tmp imageMetaXattr buf, True), (EvRename tmp ?dp, False)] @ [(EvRemove tmp, True)]"
                    using w5 t w6 by (auto simp: os_Remove_def emit_def)
                  ultimately show thesis using fin w4(4) t pf Inr \<open>imageData p = Some img\<close> Ok
                    by (intro cleaned[of tmp sz sevs "[(EvFsetxattr tmp imageMetaXattr buf, True), (EvRename tmp ?dp, False)]" img]) simp_all
                next
                  case None
                  from os_Rename_None[OF rn[unfolded None]] w5(1)
                  have w6d: "w6 = emit (EvRename tmp ?dp) True
                      (w5\<lparr>fs := ((fs w5)(tmp := None))(?dp \<mapsto> \<lparr>fsize = sz, xattr = Some buf\<rparr>)\<rparr>)"
                    by auto
                  have w6: "fs w6 = ((fs w)(tmp := None))(?dp \<mapsto> \<lparr>fsize = sz, xattr = Some buf\<rparr>)"
                    "locks w6 = locks w"
                    "trace w6 = trace w @ (?CT, True) # (EvFtruncate tmp sz, True) # sevs @
                     [(EvFsetxattr tmp imageMetaXattr buf, True), (EvRename tmp ?dp, True)]"
                    using w5 by (simp_all add: w6d emit_def)
                  have "r3 = Ok ()" "w3 = w6" "\<not> d"
                    using pub ses rok Inr p4f sx \<open>xe = None\<close> rn None
                    by (auto simp: bootcInstallImageToDisk_publish_def Let_def)
                  then show thesis using fin w6 w4(4,5) rok t pf Inr \<open>imageData p = Some img\<close> Ok
                    by (intro published[of tmp sz buf img sevs]) simp_all
                qed
              qed
            qed
          qed
        qed
      qed
    qed
  qed
qed

lemma new_events_append: "trace w' = trace w @ evs \<Longrightarrow> new_events w w' = evs"
  by (simp add: new_events_def)

lemma split_after_prefix:
  assumes "A @ B = pre @ x # post" and "x \<notin> set A"
  shows "\<exists>pre'. pre = A @ pre' \<and> B = pre' @ x # post"
proof -
  from assms(1) obtain us where
    "(A = pre @ us \<and> us @ B = x # post) \<or> (A @ us = pre \<and> B = us @ x # post)"
    by (auto simp: append_eq_append_conv2)
  then show ?thesis
  proof
    assume a: "A = pre @ us \<and> us @ B = x # post"
    show ?thesis
    proof (cases us)
      case Nil
      with a show ?thesis by simp
    next
      case (Cons u us')
      with a have "x \<in> set A" by auto
      with assms(2) show ?thesis by simp
    qed
  next
    assume "A @ us = pre \<and> B = us @ x # post"
    then show ?thesis by auto
  qed
qed

lemma session_no_rename:
  "list_all (\<lambda>e. session_call (fst e)) sevs \<Longrightarrow> (EvRename s d, ok) \<notin> set sevs"
  by (auto simp: list_all_iff)

lemma session_no_setxattr:
  "list_all (\<lambda>e. session_call (fst e)) sevs \<Longrightarrow> (EvFsetxattr t n b, ok) \<notin> set sevs"
  by (auto simp: list_all_iff)

section \<open>The size of the disk image\<close>

lemma session_no_truncate:
  "list_all (\<lambda>e. session_call (fst e)) sevs \<Longrightarrow> (EvFtruncate t sz, ok) \<notin> set sevs"
  by (auto simp: list_all_iff)

lemma bootcInstallImageToDisk_truncates_computed_size:
  assumes run: "bootcInstallImageToDisk l ev q c p w = (r, p', w')"
    and tr: "(EvFtruncate t sz, ok) \<in> set (new_events w w')"
  shows "\<exists>img. imageData p = Some img \<and> computeSize l (Size img) (DiskSize c) = Ok sz"
  using run
proof (cases rule: bootcInstallImageToDisk_outcomes)
  case (temp_failed e)
  have "new_events w w' = [(EvCreateTemp (Directory p) ''podman-bootc-tempdisk'', False)]"
    using temp_failed(4) by (rule new_events_append)
  with tr show ?thesis by simp
next
  case (left_behind tmp evs)
  have "new_events w w' = (EvCreateTemp (Directory p) ''podman-bootc-tempdisk'', True) # evs"
    using left_behind(6) by (rule new_events_append)
  with tr left_behind(7) show ?thesis by auto
next
  case (cleaned tmp sz' sevs tl img)
  have "new_events w w' = (EvCreateTemp (Directory p) ''podman-bootc-tempdisk'', True) #
          (EvFtruncate tmp sz', True) # sevs @ tl @ [(EvRemove tmp, True)]"
    using cleaned(6) by (rule new_events_append)
  with tr session_no_truncate[OF cleaned(7)] cleaned(8) have "sz = sz'" by auto
  with cleaned(9,10) show ?thesis by simp
next
  case (published tmp sz' buf sevs img)
  have "new_events w w' = (EvCreateTemp (Directory p) ''podman-bootc-tempdisk'', True) #
          (EvFtruncate tmp sz', True) # sevs @
          [(EvFsetxattr tmp imageMetaXattr buf, True),
           (EvRename tmp (filepath_Join (Directory p) (config_DiskImage l)), True)]"
    using published(9) by (rule new_events_append)
  with tr session_no_truncate[OF published(10)] have "sz = sz'" by auto
  with published(7,8) show ?thesis by simp
qed

text \<open>
  C3, as the claim states it, fails on \<open>int64\<close>: for an image of \<open>2 ^ 62\<close> bytes
  the product \<open>Size * 2\<close> wraps around to \<open>- 2 ^ 63\<close>, the minimum replaces it, and
  the disk gets 10 GiB, less than twice the image size.
\<close>

theorem computeSize_wraps_counterexample:
  "(0::int) \<le> 2 ^ 62 \<and> computeSize demo_lib (2 ^ 62) [] = Ok 10737418240 \<and>
   \<not> (2 * 2 ^ 62 \<le> (10737418240::int))"
  by (simp add: computeSize_def containerSizeToDiskSizeMultiplier_def diskSizeMinimum_def
      wrap64_def align_def go_rem_def)

text \<open>
  C3 (amended): for every image size with \<open>0 \<le> 2 * imageSize \<le> 2 ^ 63 - 4096\<close>
  and an override that is absent or parses to at most \<open>2 ^ 63 - 4096\<close>, the disk-size
  computation returns a value that is at least 10 GiB, at least twice the image size,
  at least the parsed override, and a multiple of 4096. The computation is
  deterministic: its result is a function of the image size, the override string and
  the parser alone, and in every run of bootcInstallImageToDisk, whatever the
  environment and the files, the size given to \<open>Ftruncate\<close> is that result.
\<close>

theorem computeSize_bounds:
  assumes "0 \<le> imageSize" and "2 * imageSize \<le> 2 ^ 63 - 4096"
    and "diskSize = [] \<or> units_FromHumanSize l diskSize = Inr ov"
    and "diskSize \<noteq> [] \<longrightarrow> ov \<le> 2 ^ 63 - 4096"
  shows "(\<exists>r. computeSize l imageSize diskSize = Ok r \<and> diskSizeMinimum \<le> r \<and>
            2 * imageSize \<le> r \<and> (diskSize \<noteq> [] \<longrightarrow> ov \<le> r) \<and> r mod 4096 = 0) \<and>
         (\<forall>ev q c p w res p' w' t sz ok img.
            bootcInstallImageToDisk l ev q c p w = (res, p', w') \<and>
            imageData p = Some img \<and> Size img = imageSize \<and> DiskSize c = diskSize \<and>
            (EvFtruncate t sz, ok) \<in> set (new_events w w') \<longrightarrow>
            computeSize l imageSize diskSize = Ok sz)"
proof -
  have det: "computeSize l imageSize diskSize = Ok sz"
    if "bootcInstallImageToDisk l ev q c p w = (res, p', w')" "imageData p = Some img"
      "Size img = imageSize" "DiskSize c = diskSize"
      "(EvFtruncate t sz, ok) \<in> set (new_events w w')"
    for ev q c p w res p' w' t sz ok img
    using bootcInstallImageToDisk_truncates_computed_size[OF that(1,5)] that(2,3,4) by auto
  have w: "wrap64 (imageSize * 2) = 2 * imageSize"
    using assms(1,2) by (intro wrap64_id[THEN trans]) simp_all
  define s1 where "s1 = (if 2 * imageSize < diskSizeMinimum then diskSizeMinimum else 2 * imageSize)"
  define s2 where "s2 = (if diskSize \<noteq> [] \<and> s1 < ov then ov else s1)"
  have s1: "diskSizeMinimum \<le> s1" "2 * imageSize \<le> s1" "s1 \<le> 2 ^ 63 - 4096"
    using assms(2) by (auto simp: s1_def diskSizeMinimum_def)
  have s2: "s1 \<le> s2" "diskSize \<noteq> [] \<longrightarrow> ov \<le> s2" "s2 \<le> 2 ^ 63 - 4096" "0 \<le> s2"
    using s1 assms(4) by (auto simp: s2_def diskSizeMinimum_def)
  have eq: "computeSize l imageSize diskSize = align s2 4096"
    using assms(3) w
    by (auto simp: computeSize_def containerSizeToDiskSizeMultiplier_def Let_def s1_def s2_def)
  from align_4096[OF s2(4) s2(3)] obtain r where
    r: "align s2 4096 = Ok r" "s2 \<le> r" "r mod 4096 = 0" by auto
  have "\<exists>r. computeSize l imageSize diskSize = Ok r \<and> diskSizeMinimum \<le> r \<and>
            2 * imageSize \<le> r \<and> (diskSize \<noteq> [] \<longrightarrow> ov \<le> r) \<and> r mod 4096 = 0"
    using eq r s1 s2 by auto
  then show ?thesis using det by blast
qed

text \<open>
  The spec's scenario: an image of 8 GiB with the override \<open>20GB\<close> gets
  20,000,002,048 bytes, the next multiple of 4096 above 20,000,000,000.
\<close>

theorem computeSize_bounds_witness:
  "computeSize demo_lib (8 * 1024 * 1024 * 1024) ''20GB'' = Ok 20000002048 \<and>
   diskSizeMinimum \<le> 20000002048 \<and> 2 * (8 * 1024 * 1024 * 1024) \<le> (20000002048::int) \<and>
   (20000000000::int) \<le> 20000002048 \<and> (20000002048::int) mod 4096 = 0"
proof -
  have p: "units_FromHumanSize demo_lib ''20GB'' = Inr 20000000000"
    by (simp add: demo_lib_def demo_FromHumanSize_def wrap64_def)
  have "\<exists>r. computeSize demo_lib (8 * 1024 * 1024 * 1024) ''20GB'' = Ok r \<and> diskSizeMinimum \<le> r \<and>
           2 * (8 * 1024 * 1024 * 1024) \<le> r \<and> (''20GB'' \<noteq> [] \<longrightarrow> 20000000000 \<le> r) \<and> r mod 4096 = 0"
    by (rule computeSize_bounds[THEN conjunct1]) (simp_all add: p)
  moreover have "computeSize demo_lib (8 * 1024 * 1024 * 1024) ''20GB'' = Ok 20000002048"
    by (simp add: computeSize_def p containerSizeToDiskSizeMultiplier_def diskSizeMinimum_def
        wrap64_def align_def go_rem_def)
  ultimately show ?thesis by auto
qed

section \<open>Publishing\<close>

text \<open>
  C2: in every run of bootcInstallImageToDisk, a rename to the canonical cache path
  is preceded by the successful write of the metadata attribute, holding the current
  image digest, onto the same temporary file; and when writing the attribute or the
  rename fails, an error is returned, the temporary file is removed (it is the last
  call made), the file system is as it was before the call, and no rename succeeded:
  nothing is published under the canonical name.
\<close>

theorem publish_after_stamp:
  assumes run: "bootcInstallImageToDisk l ev q c p w = (r, p', w')"
  shows
    "(\<forall>pre src dst ok post.
        new_events w w' = pre @ (EvRename src dst, ok) # post \<longrightarrow>
        (\<exists>buf. json_Marshal l \<lparr>ImageDigest = ImageId p\<rparr> = Inr buf \<and>
               p_file p' = Some src \<and>
               dst = filepath_Join (Directory p) (config_DiskImage l) \<and>
               (EvFsetxattr src imageMetaXattr buf, True) \<in> set pre)) \<and>
     ((\<exists>t n b. (EvFsetxattr t n b, False) \<in> set (new_events w w')) \<or>
      (\<exists>s d. (EvRename s d, False) \<in> set (new_events w w')) \<longrightarrow>
        (\<exists>e. r = Err e) \<and> fs w' = fs w \<and>
        (\<exists>tmp. p_file p' = Some tmp \<and> fs w' tmp = None \<and>
               last (new_events w w') = (EvRemove tmp, True)) \<and>
        (\<forall>s d. (EvRename s d, True) \<notin> set (new_events w w')))"
  using run
proof (cases rule: bootcInstallImageToDisk_outcomes)
  case (temp_failed e)
  have ne: "new_events w w' = [(EvCreateTemp (Directory p) ''podman-bootc-tempdisk'', False)]"
    using temp_failed(4) by (rule new_events_append)
  show ?thesis unfolding ne by (auto simp: Cons_eq_append_conv)
next
  case (left_behind tmp evs)
  have ne: "new_events w w' = (EvCreateTemp (Directory p) ''podman-bootc-tempdisk'', True) # evs"
    using left_behind(6) by (rule new_events_append)
  show ?thesis unfolding ne using left_behind(7) by (auto simp: Cons_eq_append_conv)
next
  case (cleaned tmp sz sevs tl img)
  let ?A = "(EvCreateTemp (Directory p) ''podman-bootc-tempdisk'', True) # (EvFtruncate tmp sz, True) # sevs"
  have ne: "new_events w w' = ?A @ (tl @ [(EvRemove tmp, True)])"
    using cleaned(6) by (simp add: new_events_append)
  have nr: "\<And>s d ok. (EvRename s d, ok) \<notin> set ?A"
    using session_no_rename[OF cleaned(7)] by simp
  have nx: "\<And>t n b ok. (EvFsetxattr t n b, ok) \<notin> set ?A"
    using session_no_setxattr[OF cleaned(7)] by simp
  have ord: "\<exists>buf. json_Marshal l \<lparr>ImageDigest = ImageId p\<rparr> = Inr buf \<and> p_file p' = Some src \<and>
               dst = filepath_Join (Directory p) (config_DiskImage l) \<and>
               (EvFsetxattr src imageMetaXattr buf, True) \<in> set pre"
    if h: "new_events w w' = pre @ (EvRename src dst, ok) # post" for pre src dst ok post
  proof -
    from split_after_prefix[OF h[unfolded ne, symmetric, THEN sym] nr]
    obtain pre' where pre': "pre = ?A @ pre'" "tl @ [(EvRemove tmp, True)] = pre' @ (EvRename src dst, ok) # post"
      by blast
    from cleaned(8) pre'(2) show ?thesis
      using cleaned(5) pre'(1) by (auto simp: Cons_eq_append_conv)
  qed
  have fail: "(\<exists>e. r = Err e) \<and> fs w' = fs w \<and>
        (\<exists>tmp. p_file p' = Some tmp \<and> fs w' tmp = None \<and>
               last (new_events w w') = (EvRemove tmp, True)) \<and>
        (\<forall>s d. (EvRename s d, True) \<notin> set (new_events w w'))"
    if h: "(\<exists>t n b. (EvFsetxattr t n b, False) \<in> set (new_events w w')) \<or>
      (\<exists>s d. (EvRename s d, False) \<in> set (new_events w w'))"
  proof -
    from h have "tl \<noteq> []" unfolding ne using nr nx by auto
    with cleaned(8) have e: "\<exists>e. r = Err e" and nt: "\<forall>s d. (EvRename s d, True) \<notin> set tl" by auto
    have "\<forall>s d. (EvRename s d, True) \<notin> set (new_events w w')"
      unfolding ne using nr nt by auto
    moreover have "last (new_events w w') = (EvRemove tmp, True)" unfolding ne by simp
    ultimately show ?thesis using e cleaned(2,3,5) by auto
  qed
  show ?thesis using ord fail by blast
next
  case (published tmp sz buf sevs img)
  let ?A = "(EvCreateTemp (Directory p) ''podman-bootc-tempdisk'', True) # (EvFtruncate tmp sz, True) # sevs"
  let ?B = "[(EvFsetxattr tmp imageMetaXattr buf, True),
           (EvRename tmp (filepath_Join (Directory p) (config_DiskImage l)), True)]"
  have ne: "new_events w w' = ?A @ ?B"
    using published(9) by (simp add: new_events_append)
  have nr: "\<And>s d ok. (EvRename s d, ok) \<notin> set ?A"
    using session_no_rename[OF published(10)] by simp
  have nx: "\<And>t n b ok. (EvFsetxattr t n b, ok) \<notin> set ?A"
    using session_no_setxattr[OF published(10)] by simp
  have ord: "\<exists>buf. json_Marshal l \<lparr>ImageDigest = ImageId p\<rparr> = Inr buf \<and> p_file p' = Some src \<and>
               dst = filepath_Join (Directory p) (config_DiskImage l) \<and>
               (EvFsetxattr src imageMetaXattr buf, True) \<in> set pre"
    if h: "new_events w w' = pre @ (EvRename src dst, ok) # post" for pre src dst ok post
  proof -
    from split_after_prefix[OF h[unfolded ne, symmetric, THEN sym] nr]
    obtain pre' where pre': "pre = ?A @ pre'" "?B = pre' @ (EvRename src dst, ok) # post"
      by blast
    from pre'(2) show ?thesis
      using published(3,6) pre'(1) by (auto simp: Cons_eq_append_conv)
  qed
  have nofail: "\<not> ((\<exists>t n b. (EvFsetxattr t n b, False) \<in> set (new_events w w')) \<or>
      (\<exists>s d. (EvRename s d, False) \<in> set (new_events w w')))"
    unfolding ne using nr nx by auto
  show ?thesis using ord nofail by blast
qed

theorem publish_after_stamp_witness:
  "\<exists>r p' w'. bootcInstallImageToDisk demo_lib (demo_env\<lparr>Rename_fault := Some (Errno ''EIO'')\<rparr>)
        False demo_config demo_resolved world_init = (r, p', w') \<and>
     (EvRename ''/cache/abc/podman-bootc-tempdisk42'' ''/cache/abc/disk.raw'', False)
        \<in> set (new_events world_init w') \<and>
     (\<exists>e. r = Err e) \<and> fs w' = fs world_init \<and>
     p_file p' = Some ''/cache/abc/podman-bootc-tempdisk42'' \<and>
     fs w' ''/cache/abc/podman-bootc-tempdisk42'' = None"
proof -
  let ?ev = "demo_env\<lparr>Rename_fault := Some (Errno ''EIO'')\<rparr>"
  obtain r p' w' where run:
    "bootcInstallImageToDisk demo_lib ?ev False demo_config demo_resolved world_init = (r, p', w')"
    by (cases "bootcInstallImageToDisk demo_lib ?ev False demo_config demo_resolved world_init")
  have pf: "p_file p' = Some ''/cache/abc/podman-bootc-tempdisk42''"
    using run by (auto simp: model_defs demo_defs demo_resolved_def Let_def)
  have rn: "(EvRename ''/cache/abc/podman-bootc-tempdisk42'' ''/cache/abc/disk.raw'', False)
        \<in> set (new_events world_init w')"
    using run by (auto simp: model_defs demo_defs demo_resolved_def Let_def)
  from publish_after_stamp[OF run] rn
  have "(\<exists>e. r = Err e) \<and> fs w' = fs world_init \<and>
        (\<exists>tmp. p_file p' = Some tmp \<and> fs w' tmp = None \<and>
               last (new_events world_init w') = (EvRemove tmp, True))"
    by blast
  with pf rn run show ?thesis by auto
qed

section \<open>The installer fails\<close>

text \<open>
  C6, as the claim states it, fails where it says that no file exists at the canonical
  cache path afterwards: a cache file whose attribute does not parse is not removed
  before the build, and when the installer then exits with code 1 the file is still
  there.
\<close>

theorem installer_failure_stale_file_counterexample:
  "fst (Install demo_lib demo_env_exit1 False demo_config demo_disk (world_with (Some ''garbage''))) =
     Err (Wrap ''failed to create disk image'' (Errorf ''failed to run bootc install'')) \<and>
   fs (snd (snd (Install demo_lib demo_env_exit1 False demo_config demo_disk
                   (world_with (Some ''garbage''))))) ''/cache/abc/disk.raw'' =
     Some \<lparr>fsize = 10737418240, xattr = Some ''garbage''\<rparr>"
  by (simp add: model_defs demo_defs demo_env_exit1_def world_with_def Let_def)

text \<open>
  C6 (amended): whenever bootcInstallImageToDisk reaches the installer session and
  the session fails (a non-zero exit code is such a failure), the temporary file is
  deleted, nothing is published (no rename is attempted), the returned error wraps the
  session's error as \<open>failed to create disk image\<close>, and the file system is as it
  was when bootcInstallImageToDisk started: the canonical cache path holds what it held
  then, so no file exists there if none did.
\<close>

theorem installer_failure_cleans_up:
  assumes ct: "os_CreateTemp ev (Directory p) ''podman-bootc-tempdisk'' w = (Inr tmp, w1)"
    and img: "imageData p = Some img"
    and sz: "computeSize l (Size img) (DiskSize c) = Ok sz"
    and ft: "syscall_Ftruncate ev tmp sz w1 = (None, w2)"
    and ses: "runInstallContainer ev q c (p\<lparr>p_file := Some tmp\<rparr>) w2 = (Err e, p3, w3)"
  shows "\<exists>w'. bootcInstallImageToDisk l ev q c p w =
               (Err (Wrap ''failed to create disk image'' e), p3, w') \<and>
           fs w' = fs w \<and> fs w' tmp = None \<and> p_file p3 = Some tmp \<and>
           fs w' (filepath_Join (Directory p) (config_DiskImage l)) =
             fs w (filepath_Join (Directory p) (config_DiskImage l)) \<and>
           last (new_events w w') = (EvRemove tmp, True) \<and>
           (\<forall>s d ok. (EvRename s d, ok) \<notin> set (new_events w w')) \<and>
           (\<forall>code. containers_Start ev (bootcInstallContainerId pp) = None \<and>
              (q \<or> containers_Attach ev (bootcInstallContainerId pp) = None) \<and>
              containers_Wait ev (bootcInstallContainerId pp) = Inr code \<and> code \<noteq> 0 \<longrightarrow>
              fst (runInstallContainer_run ev q pp ww) = Err (Errorf ''failed to run bootc install''))"
proof -
  have exit_code: "\<forall>code. containers_Start ev (bootcInstallContainerId pp) = None \<and>
              (q \<or> containers_Attach ev (bootcInstallContainerId pp) = None) \<and>
              containers_Wait ev (bootcInstallContainerId pp) = Inr code \<and> code \<noteq> 0 \<longrightarrow>
              fst (runInstallContainer_run ev q pp ww) = Err (Errorf ''failed to run bootc install'')"
    by (auto simp: runInstallContainer_run_def Let_def)
  let ?w' = "os_Remove tmp w3"
  have run: "bootcInstallImageToDisk l ev q c p w =
               (Err (Wrap ''failed to create disk image'' e), p3, ?w')"
    using ct img sz ft ses
    by (simp add: bootcInstallImageToDisk_def bootcInstallImageToDisk_publish_def)
  have t: "fs w tmp = None" using os_CreateTemp_Inr[OF ct] by simp
  from run show ?thesis
  proof (cases rule: bootcInstallImageToDisk_outcomes)
    case (temp_failed e')
    then show ?thesis using ct os_CreateTemp_Inr[OF ct]
      by (simp add: os_Remove_def emit_def)
  next
    case (left_behind tmp' evs)
    have "tmp' = tmp" using left_behind(5) bootcInstallImageToDisk_p_file[OF run ct] by simp
    then have "fs ?w' tmp \<noteq> None" using left_behind(3) by simp
    then show ?thesis by (simp add: os_Remove_def emit_def)
  next
    case (cleaned tmp' sz' sevs tl img')
    have tt: "tmp' = tmp" using cleaned(5) bootcInstallImageToDisk_p_file[OF run ct] by simp
    have tl: "tl = []" using cleaned(8) by auto
    have ne: "new_events w ?w' = (EvCreateTemp (Directory p) ''podman-bootc-tempdisk'', True) #
          (EvFtruncate tmp sz', True) # sevs @ [(EvRemove tmp, True)]"
      using cleaned(6) tl tt by (simp add: new_events_append)
    have "\<forall>s d ok. (EvRename s d, ok) \<notin> set (new_events w ?w')"
      unfolding ne using session_no_rename[OF cleaned(7)] by simp
    moreover have "last (new_events w ?w') = (EvRemove tmp, True)" unfolding ne by simp
    ultimately show ?thesis using run cleaned(3,5) t tt exit_code by auto
  next
    case (published tmp' sz' buf sevs img')
    then show ?thesis by simp
  qed
qed

theorem installer_failure_cleans_up_witness:
  "\<exists>p3 w'. bootcInstallImageToDisk demo_lib demo_env_exit1 False demo_config demo_resolved world_init =
       (Err (Wrap ''failed to create disk image'' (Errorf ''failed to run bootc install'')), p3, w') \<and>
     fs w' = fs world_init \<and> fs w' ''/cache/abc/podman-bootc-tempdisk42'' = None \<and>
     fs w' ''/cache/abc/disk.raw'' = None"
proof -
  let ?tmp = "''/cache/abc/podman-bootc-tempdisk42''"
  let ?c1 = "os_CreateTemp demo_env_exit1 (Directory demo_resolved) ''podman-bootc-tempdisk'' world_init"
  let ?c2 = "syscall_Ftruncate demo_env_exit1 ?tmp 10737418240 (snd ?c1)"
  let ?c3 = "runInstallContainer demo_env_exit1 False demo_config (demo_resolved\<lparr>p_file := Some ?tmp\<rparr>) (snd ?c2)"
  have ct: "?c1 = (Inr ?tmp, snd ?c1)"
    by (simp add: model_defs demo_defs demo_env_exit1_def demo_resolved_def Let_def)
  have img: "imageData demo_resolved = Some demo_image"
    by (simp add: demo_defs demo_env_exit1_def demo_resolved_def)
  have sz: "computeSize demo_lib (Size demo_image) (DiskSize demo_config) = Ok 10737418240"
    by (simp add: model_defs demo_defs demo_env_exit1_def demo_resolved_def)
  have ft: "?c2 = (None, snd ?c2)"
    by (simp add: model_defs demo_defs demo_env_exit1_def demo_resolved_def Let_def)
  have ses: "?c3 = (Err (Errorf ''failed to run bootc install''), fst (snd ?c3), snd (snd ?c3))"
    by (simp add: model_defs demo_defs demo_env_exit1_def demo_resolved_def Let_def)
  have dp: "filepath_Join (Directory demo_resolved) (config_DiskImage demo_lib) = ''/cache/abc/disk.raw''"
    by (simp add: model_defs demo_defs demo_env_exit1_def demo_resolved_def)
  have none: "fs world_init ''/cache/abc/disk.raw'' = None"
    by (simp add: demo_defs demo_env_exit1_def demo_resolved_def)
  from installer_failure_cleans_up[where l = demo_lib and pp = demo_resolved and ww = world_init,
      OF ct img sz ft ses]
  obtain w' where
    "bootcInstallImageToDisk demo_lib demo_env_exit1 False demo_config demo_resolved world_init =
       (Err (Wrap ''failed to create disk image'' (Errorf ''failed to run bootc install'')),
        fst (snd ?c3), w')"
    "fs w' = fs world_init" "fs w' ?tmp = None"
    by blast
  then show ?thesis using none by auto
qed

section \<open>The lock is held elsewhere\<close>

lemma pullImage_Ok:
  assumes "pullImage ev p w = (Ok (), p1, w1)"
  shows "\<exists>i img t ts. images_Pull ev (ImageNameOrId p) = Inr [i] \<and>
           images_GetImage ev (ImageNameOrId p) = Inr img \<and> RepoTags img = t # ts \<and>
           p1 = p\<lparr>imageData := Some img, ImageId := i, RepoTag := t\<rparr> \<and>
           w1 = emit (EvGetImage (ImageNameOrId p)) True (emit (EvPull (ImageNameOrId p)) True w)"
proof -
  from assms obtain ids where ids: "images_Pull ev (ImageNameOrId p) = Inr ids"
    by (cases "images_Pull ev (ImageNameOrId p)") (auto simp: pullImage_def)
  from assms ids obtain i where i: "ids = [i]"
    by (cases ids; cases "tl ids") (auto simp: pullImage_def Let_def split: if_splits)
  from assms ids i obtain img where img: "images_GetImage ev (ImageNameOrId p) = Inr img"
    by (cases "images_GetImage ev (ImageNameOrId p)") (auto simp: pullImage_def Let_def)
  from assms ids i img obtain t ts where t: "RepoTags img = t # ts"
    by (cases "RepoTags img") (auto simp: pullImage_def Let_def)
  from assms ids i img t show ?thesis
    by (auto simp: pullImage_def Let_def)
qed

text \<open>
  C8: whenever the image has been resolved and TryLock(Exclusive) on the per-image
  cache directory returns \<open>acquired = false\<close>, Install returns the error
  \<open>unable to lock the VM cache path\<close> at once: the calls it made are the pull, the
  inspection and the one lock attempt, in this order and nothing else (no second
  attempt, no cache check, no build, no unlock), and the files and locks are untouched.
  The attempt itself is the single step \<open>lock_TryLock\<close>, which answers from who
  holds the lock and never waits.
\<close>

theorem lock_busy_aborts:
  assumes pull: "pullImage ev (p\<lparr>CreatedAt := time_Now ev\<rparr>) w = (Ok (), p1, w1)"
    and busy: "lock_TryLock ev (filepath_Join (CacheDir (User p1)) (ImageId p1)) w1 = (Inr False, w2)"
  shows "Install l ev q c p w =
           (Err (Errorf ''unable to lock the VM cache path''),
            p1\<lparr>Directory := filepath_Join (CacheDir (User p1)) (ImageId p1)\<rparr>, w2) \<and>
         fs w2 = fs w \<and> locks w2 = locks w \<and>
         locks w (filepath_Join (CacheDir (User p1)) (ImageId p1)) \<noteq> Free \<and>
         new_events w w2 =
           [(EvPull (ImageNameOrId p), True), (EvGetImage (ImageNameOrId p), True),
            (EvTryLock (filepath_Join (CacheDir (User p1)) (ImageId p1)), False)]"
proof -
  let ?dir = "filepath_Join (CacheDir (User p1)) (ImageId p1)"
  have run: "Install l ev q c p w =
           (Err (Errorf ''unable to lock the VM cache path''), p1\<lparr>Directory := ?dir\<rparr>, w2)"
    using pull busy by (simp add: Install_def Let_def)
  from pullImage_Ok[OF pull]
  have w1: "w1 = emit (EvGetImage (ImageNameOrId p)) True (emit (EvPull (ImageNameOrId p)) True w)"
    by auto
  from busy have w2: "w2 = emit (EvTryLock ?dir) False w1" and held: "locks w1 ?dir \<noteq> Free"
    by (auto simp: lock_TryLock_def split: option.splits holder.splits)
  show ?thesis using run w1 w2 held by (simp add: emit_def new_events_def)
qed

theorem lock_busy_aborts_witness:
  "fst (Install demo_lib demo_env False demo_config demo_disk world_busy) =
     Err (Errorf ''unable to lock the VM cache path'') \<and>
   fs (snd (snd (Install demo_lib demo_env False demo_config demo_disk world_busy))) = fs world_busy \<and>
   new_events world_busy (snd (snd (Install demo_lib demo_env False demo_config demo_disk world_busy))) =
     [(EvPull ''quay.io/example/os'', True), (EvGetImage ''quay.io/example/os'', True),
      (EvTryLock ''/cache/abc'', False)]"
proof -
  let ?pl = "pullImage demo_env (demo_disk\<lparr>CreatedAt := time_Now demo_env\<rparr>) world_busy"
  let ?p1 = "fst (snd ?pl)"
  let ?tl = "lock_TryLock demo_env (filepath_Join (CacheDir (User ?p1)) (ImageId ?p1)) (snd (snd ?pl))"
  have pull: "?pl = (Ok (), ?p1, snd (snd ?pl))"
    by (simp add: model_defs demo_defs world_busy_def Let_def)
  have busy: "?tl = (Inr False, snd ?tl)"
    by (simp add: model_defs demo_defs world_busy_def Let_def)
  have names: "ImageNameOrId demo_disk = ''quay.io/example/os''"
    "filepath_Join (CacheDir (User ?p1)) (ImageId ?p1) = ''/cache/abc''"
    by (simp_all add: model_defs demo_defs world_busy_def Let_def)
  from lock_busy_aborts[where l = demo_lib and q = False and c = demo_config, OF pull busy]
  show ?thesis unfolding names by simp
qed

section \<open>Resolving the image\<close>

text \<open>
  C9, as the claim states it, fails for the repo tags: an image with two repo tags
  resolves without error, the first tag is taken, and the build runs.
\<close>

theorem two_repo_tags_counterexample:
  "images_GetImage demo_env_two_tags ''quay.io/example/os'' = Inr demo_image_two_tags \<and>
   length (RepoTags demo_image_two_tags) = 2 \<and>
   fst (Install demo_lib demo_env_two_tags False demo_config demo_disk world_init) = Ok () \<and>
   RepoTag (fst (snd (Install demo_lib demo_env_two_tags False demo_config demo_disk world_init))) =
     ''quay.io/example/os:latest'' \<and>
   (EvStart ''c1'', True) \<in>
     set (trace (snd (snd (Install demo_lib demo_env_two_tags False demo_config demo_disk world_init))))"
  by (simp add: model_defs demo_defs demo_env_two_tags_def demo_image_two_tags_def Let_def)

text \<open>
  C9 (amended): image resolution requires exactly one resolved identifier: if the pull
  step returns zero identifiers or more than one, Install returns a hard error right
  after the pull and no build is attempted (no further call is made, no file is
  touched). The number of repo tags is not checked to be one: when the pull returns
  one identifier and the inspected image has at least one repo tag, resolution
  succeeds and records the identifier and the first repo tag.
\<close>

theorem pullImage_resolution:
  "(images_Pull ev (ImageNameOrId p) = Inr ids \<and> length ids \<noteq> 1 \<longrightarrow>
      (\<exists>p' w'. Install l ev q c p w =
           (Err (Errorf (if ids = [] then ''no ids returned from image pull''
                         else ''multiple ids returned from image pull'')), p', w') \<and>
         fs w' = fs w \<and> locks w' = locks w \<and>
         new_events w w' = [(EvPull (ImageNameOrId p), True)])) \<and>
   (images_Pull ev (ImageNameOrId p) = Inr [i] \<and>
    images_GetImage ev (ImageNameOrId p) = Inr img \<and> RepoTags img = t # ts \<longrightarrow>
      (\<exists>w'. pullImage ev p w =
           (Ok (), p\<lparr>imageData := Some img, ImageId := i, RepoTag := t\<rparr>, w') \<and>
         fs w' = fs w))"
proof -
  have a: "\<exists>p' w'. Install l ev q c p w =
           (Err (Errorf (if ids = [] then ''no ids returned from image pull''
                         else ''multiple ids returned from image pull'')), p', w') \<and>
         fs w' = fs w \<and> locks w' = locks w \<and>
         new_events w w' = [(EvPull (ImageNameOrId p), True)]"
    if "images_Pull ev (ImageNameOrId p) = Inr ids" "length ids \<noteq> 1"
    using that
    by (cases ids; cases "tl ids")
       (auto simp: Install_def pullImage_def Let_def emit_def new_events_def)
  have b: "\<exists>w'. pullImage ev p w =
           (Ok (), p\<lparr>imageData := Some img, ImageId := i, RepoTag := t\<rparr>, w') \<and>
         fs w' = fs w"
    if "images_Pull ev (ImageNameOrId p) = Inr [i]"
      "images_GetImage ev (ImageNameOrId p) = Inr img" "RepoTags img = t # ts"
    using that by (simp add: pullImage_def Let_def emit_def)
  show ?thesis using a b by blast
qed

theorem pullImage_resolution_witness:
  "fst (Install demo_lib demo_env_no_ids False demo_config demo_disk world_init) =
     Err (Errorf ''no ids returned from image pull'') \<and>
   new_events world_init (snd (snd (Install demo_lib demo_env_no_ids False demo_config demo_disk world_init))) =
     [(EvPull ''quay.io/example/os'', True)] \<and>
   fst (pullImage demo_env_two_tags demo_disk world_init) = Ok () \<and>
   RepoTag (fst (snd (pullImage demo_env_two_tags demo_disk world_init))) = ''quay.io/example/os:latest''"
proof -
  have a: "images_Pull demo_env_no_ids (ImageNameOrId demo_disk) = Inr [] \<and> length ([]::string list) \<noteq> 1"
    by (simp add: demo_defs demo_env_no_ids_def demo_env_two_tags_def demo_image_two_tags_def)
  have b: "images_Pull demo_env_two_tags (ImageNameOrId demo_disk) = Inr [''abc''] \<and>
    images_GetImage demo_env_two_tags (ImageNameOrId demo_disk) = Inr demo_image_two_tags \<and>
    RepoTags demo_image_two_tags = ''quay.io/example/os:latest'' # [''quay.io/example/os:v1'']"
    by (simp add: demo_defs demo_env_no_ids_def demo_env_two_tags_def demo_image_two_tags_def)
  have n: "ImageNameOrId demo_disk = ''quay.io/example/os''"
    by (simp add: demo_defs demo_env_no_ids_def demo_env_two_tags_def demo_image_two_tags_def)
  from pullImage_resolution[where ev = demo_env_no_ids and p = demo_disk and ids = "[]" and l = demo_lib
      and q = False and c = demo_config and w = world_init and i = "[]" and img = demo_image
      and t = "[]" and ts = "[]"] a
  have "\<exists>p' w'. Install demo_lib demo_env_no_ids False demo_config demo_disk world_init =
           (Err (Errorf ''no ids returned from image pull''), p', w') \<and>
         new_events world_init w' = [(EvPull (ImageNameOrId demo_disk), True)]"
    by auto
  moreover
  from pullImage_resolution[where ev = demo_env_two_tags and p = demo_disk and w = world_init
      and i = "''abc''" and img = demo_image_two_tags and t = "''quay.io/example/os:latest''"
      and ts = "[''quay.io/example/os:v1'']" and ids = "[''abc'']" and l = demo_lib
      and q = False and c = demo_config] b
  have "\<exists>w'. pullImage demo_env_two_tags demo_disk world_init =
           (Ok (), demo_disk\<lparr>imageData := Some demo_image_two_tags, ImageId := ''abc'',
                     RepoTag := ''quay.io/example/os:latest''\<rparr>, w')"
    by auto
  ultimately show ?thesis unfolding n by auto
qed

section \<open>The cache check\<close>

text \<open>
  The five ways through getOrInstallImageToDisk: the file cannot be opened for a
  reason other than its absence; the entry is reused; there is no file; the attribute
  cannot be read (the file is removed, then the build); the attribute is read but does
  not parse or names another digest (the build, with the file in place).
\<close>

lemma getOrInstallImageToDisk_cases:
  assumes run: "getOrInstallImageToDisk l ev q c p w = (r, p', w')"
  obtains
    (open_error) e where
      "Open_fault ev = Some e" "\<not> is_ErrNotExist e" "r = Err e" "p' = p"
      "w' = emit (EvOpen (filepath_Join (Directory p) (config_DiskImage l))) False w"
  | (reuse) f b m where
      "Open_fault ev = None" "fs w (filepath_Join (Directory p) (config_DiskImage l)) = Some f"
      "xattr f = Some b" "length b \<le> 4096" "json_Unmarshal l b = Inr m"
      "ImageDigest m = ImageId p" "r = Ok ()" "p' = p"
      "w' = w\<lparr>trace := trace w @
              [(EvOpen (filepath_Join (Directory p) (config_DiskImage l)), True),
               (EvFgetxattr (filepath_Join (Directory p) (config_DiskImage l)) imageMetaXattr, True),
               (EvClose (filepath_Join (Directory p) (config_DiskImage l)), True)]\<rparr>"
  | (absent)
      "(\<exists>e. Open_fault ev = Some e \<and> is_ErrNotExist e) \<or>
       (Open_fault ev = None \<and> fs w (filepath_Join (Directory p) (config_DiskImage l)) = None)"
      "bootcInstallImageToDisk l ev q c p
         (emit (EvOpen (filepath_Join (Directory p) (config_DiskImage l))) False w) = (r, p', w')"
  | (unreadable) f w1 where
      "Open_fault ev = None" "fs w (filepath_Join (Directory p) (config_DiskImage l)) = Some f"
      "xattr f = None \<or> (\<exists>b. xattr f = Some b \<and> 4096 < length b)"
      "bootcInstallImageToDisk l ev q c p
         (os_Remove (filepath_Join (Directory p) (config_DiskImage l))
            (emit (EvFgetxattr (filepath_Join (Directory p) (config_DiskImage l)) imageMetaXattr) False
               (emit (EvOpen (filepath_Join (Directory p) (config_DiskImage l))) True w))) = (r, p', w1)"
      "w' = os_Close (filepath_Join (Directory p) (config_DiskImage l)) w1"
  | (stale) f b w1 where
      "Open_fault ev = None" "fs w (filepath_Join (Directory p) (config_DiskImage l)) = Some f"
      "xattr f = Some b" "length b \<le> 4096"
      "(\<exists>e. json_Unmarshal l b = Inl e) \<or>
       (\<exists>m. json_Unmarshal l b = Inr m \<and> ImageDigest m \<noteq> ImageId p)"
      "bootcInstallImageToDisk l ev q c p
         (emit (EvFgetxattr (filepath_Join (Directory p) (config_DiskImage l)) imageMetaXattr) True
            (emit (EvOpen (filepath_Join (Directory p) (config_DiskImage l))) True w)) = (r, p', w1)"
      "w' = os_Close (filepath_Join (Directory p) (config_DiskImage l)) w1"
proof -
  let ?dp = "filepath_Join (Directory p) (config_DiskImage l)"
  show thesis
  proof (cases "Open_fault ev")
    case (Some e)
    show thesis
    proof (cases "is_ErrNotExist e")
      case True
      with run Some have "bootcInstallImageToDisk l ev q c p (emit (EvOpen ?dp) False w) = (r, p', w')"
        by (simp add: getOrInstallImageToDisk_def os_Open_def)
      with Some True show thesis by (intro absent) auto
    next
      case False
      with run Some have "r = Err e" "p' = p" "w' = emit (EvOpen ?dp) False w"
        by (auto simp: getOrInstallImageToDisk_def os_Open_def)
      with Some False show thesis by (intro open_error[of e]) auto
    qed
  next
    case None
    note nofault = None
    show thesis
    proof (cases "fs w ?dp")
      case None
      with run nofault have "bootcInstallImageToDisk l ev q c p (emit (EvOpen ?dp) False w) = (r, p', w')"
        by (simp add: getOrInstallImageToDisk_def os_Open_def)
      with nofault None show thesis by (intro absent) auto
    next
      case (Some f)
      note fl = Some
      define w0 where "w0 = emit (EvOpen ?dp) True w"
      have op: "os_Open ev ?dp w = (Inr ?dp, w0)"
        using nofault fl by (simp add: os_Open_def w0_def)
      have fs0: "fs w0 ?dp = Some f" using fl by (simp add: w0_def emit_def)
      show thesis
      proof (cases "xattr f = None \<or> (\<exists>b. xattr f = Some b \<and> 4096 < length b)")
        case True
        define wx where "wx = os_Remove ?dp (emit (EvFgetxattr ?dp imageMetaXattr) False w0)"
        obtain rb pb wb where b: "bootcInstallImageToDisk l ev q c p wx = (rb, pb, wb)"
          by (cases "bootcInstallImageToDisk l ev q c p wx")
        from True fs0 obtain e where
          gx: "unix_Fgetxattr ?dp imageMetaXattr 4096 w0 = (Inl e, emit (EvFgetxattr ?dp imageMetaXattr) False w0)"
          by (auto simp: unix_Fgetxattr_def)
        have "r = rb" "p' = pb" "w' = os_Close ?dp wb"
          using run op gx b by (simp_all add: getOrInstallImageToDisk_def wx_def)
        with b nofault fl True show thesis
          by (intro unreadable[of f wb]) (simp_all add: wx_def w0_def)
      next
        case False
        then obtain b where b: "xattr f = Some b" "length b \<le> 4096" by (cases "xattr f") auto
        define w2 where "w2 = emit (EvFgetxattr ?dp imageMetaXattr) True w0"
        have gx: "unix_Fgetxattr ?dp imageMetaXattr 4096 w0 = (Inr b, w2)"
          using b fs0 by (simp add: unix_Fgetxattr_def w2_def)
        show thesis
        proof (cases "\<exists>m. json_Unmarshal l b = Inr m \<and> ImageDigest m = ImageId p")
          case True
          then obtain m where m: "json_Unmarshal l b = Inr m" "ImageDigest m = ImageId p" by blast
          have "r = Ok () \<and> p' = p \<and> w' = os_Close ?dp w2"
            using run op gx m by (auto simp: getOrInstallImageToDisk_def)
          with nofault fl b m show thesis
            by (intro reuse[of f b m]) (simp_all add: w2_def w0_def os_Close_def emit_def)
        next
          case False
          obtain rb pb wb where bi: "bootcInstallImageToDisk l ev q c p w2 = (rb, pb, wb)"
            by (cases "bootcInstallImageToDisk l ev q c p w2")
          have "r = rb \<and> p' = pb \<and> w' = os_Close ?dp wb"
            using run op gx bi False
            by (cases "json_Unmarshal l b") (auto simp: getOrInstallImageToDisk_def)
          moreover have "(\<exists>e. json_Unmarshal l b = Inl e) \<or>
             (\<exists>m. json_Unmarshal l b = Inr m \<and> ImageDigest m \<noteq> ImageId p)"
            using False by (cases "json_Unmarshal l b") auto
          ultimately show thesis using bi nofault fl b
            by (intro stale[of f b wb]) (simp_all add: w2_def w0_def)
        qed
      qed
    qed
  qed
qed

lemma bootcInstallImageToDisk_starts:
  assumes "bootcInstallImageToDisk l ev q c p w = (r, p', w')"
  shows "\<exists>ok evs. trace w' =
           trace w @ (EvCreateTemp (Directory p) ''podman-bootc-tempdisk'', ok) # evs"
  using assms by (cases rule: bootcInstallImageToDisk_outcomes) auto







text \<open>
  C1, as the claim states it, fails: a cache file whose attribute names another
  digest, or does not parse, is not deleted before the build. With an installer that
  exits with code 1, the first calls are the open, the read of the attribute and the
  creation of the temporary file; the canonical path is never removed, and the stale
  file is still there afterwards.
\<close>

theorem stale_file_not_deleted_counterexample:
  "json_Unmarshal demo_lib (demo_stamp ''old'') = Inr \<lparr>ImageDigest = ''old''\<rparr> \<and>
   ImageId demo_resolved = ''abc'' \<and>
   take 3 (trace (snd (snd (getOrInstallImageToDisk demo_lib demo_env_exit1 False demo_config
             demo_resolved (world_with (Some (demo_stamp ''old''))))))) =
     [(EvOpen ''/cache/abc/disk.raw'', True),
      (EvFgetxattr ''/cache/abc/disk.raw'' ''user.bootc.meta'', True),
      (EvCreateTemp ''/cache/abc'' ''podman-bootc-tempdisk'', True)] \<and>
   (EvRemove ''/cache/abc/disk.raw'', True) \<notin>
     set (trace (snd (snd (getOrInstallImageToDisk demo_lib demo_env_exit1 False demo_config
             demo_resolved (world_with (Some (demo_stamp ''old''))))))) \<and>
   fs (snd (snd (getOrInstallImageToDisk demo_lib demo_env_exit1 False demo_config
             demo_resolved (world_with (Some (demo_stamp ''old'')))))) ''/cache/abc/disk.raw'' =
     Some \<lparr>fsize = 10737418240, xattr = Some (demo_stamp ''old'')\<rparr> \<and>
   json_Unmarshal demo_lib ''garbage'' = Inl (Errno ''invalid character'') \<and>
   (EvRemove ''/cache/abc/disk.raw'', True) \<notin>
     set (trace (snd (snd (getOrInstallImageToDisk demo_lib demo_env_exit1 False demo_config
             demo_resolved (world_with (Some ''garbage'')))))) \<and>
   fs (snd (snd (getOrInstallImageToDisk demo_lib demo_env_exit1 False demo_config
             demo_resolved (world_with (Some ''garbage''))))) ''/cache/abc/disk.raw'' =
     Some \<lparr>fsize = 10737418240, xattr = Some ''garbage''\<rparr>"
  by (simp add: model_defs demo_defs demo_env_exit1_def demo_resolved_def world_with_def Let_def)

text \<open>
  C1 (amended): in the CacheCheck step, an existing cache file whose metadata
  attribute cannot be read (it is absent, or larger than the 4096-byte buffer) is
  deleted before the build proceeds to Building: the removal of the canonical path
  comes right after the failed read and before the build's first call. An existing
  cache file whose attribute is read but fails to decode, or whose stored imageDigest
  differs from the current image id, is not deleted before Building, which starts
  right after the read: when the build fails the file is still at the canonical path,
  and when it succeeds the publishing rename has replaced it by the new image, whose
  attribute holds the current digest.
\<close>

theorem stale_file_replaced_by_rename:
  assumes run: "getOrInstallImageToDisk l ev q c p w = (r, p', w')"
    and nofault: "Open_fault ev = None"
    and present: "fs w (filepath_Join (Directory p) (config_DiskImage l)) = Some f"
  shows
    "((xattr f = None \<or> (\<exists>b. xattr f = Some b \<and> 4096 < length b)) \<longrightarrow>
        (\<exists>ok evs. new_events w w' =
           (EvOpen (filepath_Join (Directory p) (config_DiskImage l)), True) #
           (EvFgetxattr (filepath_Join (Directory p) (config_DiskImage l)) imageMetaXattr, False) #
           (EvRemove (filepath_Join (Directory p) (config_DiskImage l)), True) #
           (EvCreateTemp (Directory p) ''podman-bootc-tempdisk'', ok) # evs)) \<and>
     ((\<exists>b. xattr f = Some b \<and> length b \<le> 4096 \<and>
           ((\<exists>e. json_Unmarshal l b = Inl e) \<or>
            (\<exists>m. json_Unmarshal l b = Inr m \<and> ImageDigest m \<noteq> ImageId p))) \<longrightarrow>
        (\<exists>ok evs. new_events w w' =
           (EvOpen (filepath_Join (Directory p) (config_DiskImage l)), True) #
           (EvFgetxattr (filepath_Join (Directory p) (config_DiskImage l)) imageMetaXattr, True) #
           (EvCreateTemp (Directory p) ''podman-bootc-tempdisk'', ok) # evs) \<and>
        (r \<noteq> Ok () \<longrightarrow> fs w' (filepath_Join (Directory p) (config_DiskImage l)) = Some f) \<and>
        (r = Ok () \<longrightarrow>
           (\<exists>sz buf. json_Marshal l \<lparr>ImageDigest = ImageId p\<rparr> = Inr buf \<and>
              fs w' (filepath_Join (Directory p) (config_DiskImage l)) =
                Some \<lparr>fsize = sz, xattr = Some buf\<rparr>)))"
  using run
proof (cases rule: getOrInstallImageToDisk_cases)
  case (open_error e)
  then show ?thesis using nofault by simp
next
  case (reuse f' b m)
  then show ?thesis using present by auto
next
  case absent
  then show ?thesis using nofault present by auto
next
  case (unreadable f' w1)
  let ?dp = "filepath_Join (Directory p) (config_DiskImage l)"
  have ff: "f' = f" using unreadable(2) present by simp
  from bootcInstallImageToDisk_starts[OF unreadable(4)] obtain ok evs where
    "trace w1 = trace w @ [(EvOpen ?dp, True), (EvFgetxattr ?dp imageMetaXattr, False), (EvRemove ?dp, True)] @
        (EvCreateTemp (Directory p) ''podman-bootc-tempdisk'', ok) # evs"
    using unreadable(2) by (auto simp: emit_def os_Remove_def)
  then have "new_events w w' = (EvOpen ?dp, True) # (EvFgetxattr ?dp imageMetaXattr, False) #
        (EvRemove ?dp, True) #
        (EvCreateTemp (Directory p) ''podman-bootc-tempdisk'', ok) # (evs @ [(EvClose ?dp, True)])"
    using unreadable(5) by (simp add: os_Close_def emit_def new_events_def)
  moreover have "\<not> (\<exists>b. xattr f = Some b \<and> length b \<le> 4096 \<and>
           ((\<exists>e. json_Unmarshal l b = Inl e) \<or>
            (\<exists>m. json_Unmarshal l b = Inr m \<and> ImageDigest m \<noteq> ImageId p)))"
    using unreadable(3) ff by auto
  ultimately show ?thesis by blast
next
  case (stale f' b w1)
  let ?dp = "filepath_Join (Directory p) (config_DiskImage l)"
  let ?w0 = "emit (EvFgetxattr ?dp imageMetaXattr) True (emit (EvOpen ?dp) True w)"
  have ff: "f' = f" using stale(2) present by simp
  have n1: "\<not> (xattr f = None \<or> (\<exists>b. xattr f = Some b \<and> 4096 < length b))"
    using stale(3,4) ff by auto
  from bootcInstallImageToDisk_starts[OF stale(6)] obtain ok evs where
    "trace w1 = trace w @ [(EvOpen ?dp, True), (EvFgetxattr ?dp imageMetaXattr, True)] @
        (EvCreateTemp (Directory p) ''podman-bootc-tempdisk'', ok) # evs"
    by (auto simp: emit_def)
  then have ne: "new_events w w' = (EvOpen ?dp, True) # (EvFgetxattr ?dp imageMetaXattr, True) #
        (EvCreateTemp (Directory p) ''podman-bootc-tempdisk'', ok) # (evs @ [(EvClose ?dp, True)])"
    using stale(7) by (simp add: os_Close_def emit_def new_events_def)
  have fs0: "fs ?w0 = fs w" by (simp add: emit_def)
  have fs': "fs w' = fs w1" using stale(7) by (simp add: os_Close_def emit_def)
  have st: "(r \<noteq> Ok () \<longrightarrow> fs w1 ?dp = Some f) \<and>
        (r = Ok () \<longrightarrow>
           (\<exists>sz buf. json_Marshal l \<lparr>ImageDigest = ImageId p\<rparr> = Inr buf \<and>
              fs w1 ?dp = Some \<lparr>fsize = sz, xattr = Some buf\<rparr>))"
    using stale(6)
  proof (cases rule: bootcInstallImageToDisk_outcomes)
    case (temp_failed e)
    then show ?thesis using fs0 present by simp
  next
    case (left_behind tmp evs)
    have "tmp \<noteq> ?dp" using left_behind(2) fs0 present by auto
    then show ?thesis using left_behind(1,3) fs0 present by simp
  next
    case (cleaned tmp sz sevs tl img)
    then show ?thesis using fs0 present by simp
  next
    case (published tmp sz buf sevs img)
    then show ?thesis by auto
  qed
  show ?thesis using n1 ne st fs' by auto
qed

theorem stale_file_replaced_by_rename_witness:
  "(\<exists>ok evs. new_events (world_with None)
       (snd (snd (getOrInstallImageToDisk demo_lib demo_env False demo_config demo_resolved
                    (world_with None)))) =
       (EvOpen ''/cache/abc/disk.raw'', True) #
       (EvFgetxattr ''/cache/abc/disk.raw'' ''user.bootc.meta'', False) #
       (EvRemove ''/cache/abc/disk.raw'', True) #
       (EvCreateTemp ''/cache/abc'' ''podman-bootc-tempdisk'', ok) # evs) \<and>
   fs (snd (snd (getOrInstallImageToDisk demo_lib demo_env_exit1 False demo_config demo_resolved
                   (world_with (Some (demo_stamp ''old'')))))) ''/cache/abc/disk.raw'' =
     Some \<lparr>fsize = 10737418240, xattr = Some (demo_stamp ''old'')\<rparr> \<and>
   (\<exists>sz. fs (snd (snd (getOrInstallImageToDisk demo_lib demo_env False demo_config demo_resolved
                   (world_with (Some (demo_stamp ''old'')))))) ''/cache/abc/disk.raw'' =
     Some \<lparr>fsize = sz, xattr = Some (demo_stamp ''abc'')\<rparr>)"
proof -
  let ?g1 = "getOrInstallImageToDisk demo_lib demo_env False demo_config demo_resolved (world_with None)"
  let ?g2 = "getOrInstallImageToDisk demo_lib demo_env_exit1 False demo_config demo_resolved
               (world_with (Some (demo_stamp ''old'')))"
  let ?g3 = "getOrInstallImageToDisk demo_lib demo_env False demo_config demo_resolved
               (world_with (Some (demo_stamp ''old'')))"
  let ?old = "\<lparr>fsize = 10737418240, xattr = Some (demo_stamp ''old'')\<rparr>"
  have run1: "?g1 = (fst ?g1, fst (snd ?g1), snd (snd ?g1))" by simp
  have run2: "?g2 = (fst ?g2, fst (snd ?g2), snd (snd ?g2))" by simp
  have run3: "?g3 = (fst ?g3, fst (snd ?g3), snd (snd ?g3))" by simp
  have names: "filepath_Join (Directory demo_resolved) (config_DiskImage demo_lib) = ''/cache/abc/disk.raw''"
    "Directory demo_resolved = ''/cache/abc''" "imageMetaXattr = ''user.bootc.meta''"
    "filepath_Join ''/cache/abc'' (config_DiskImage demo_lib) = ''/cache/abc/disk.raw''"
    by (simp_all add: model_defs demo_defs demo_env_exit1_def demo_resolved_def world_with_def)
  have nf: "Open_fault demo_env = None" "Open_fault demo_env_exit1 = None"
    by (simp_all add: demo_defs demo_env_exit1_def demo_resolved_def world_with_def)
  have p1: "fs (world_with None) (filepath_Join (Directory demo_resolved) (config_DiskImage demo_lib)) =
      Some \<lparr>fsize = 10737418240, xattr = None\<rparr>"
    by (simp add: model_defs demo_defs demo_env_exit1_def demo_resolved_def world_with_def)
  have p2: "fs (world_with (Some (demo_stamp ''old''))) (filepath_Join (Directory demo_resolved) (config_DiskImage demo_lib)) =
      Some ?old"
    by (simp add: model_defs demo_defs demo_env_exit1_def demo_resolved_def world_with_def)
  have st: "\<exists>b. xattr ?old = Some b \<and> length b \<le> 4096 \<and>
           ((\<exists>e. json_Unmarshal demo_lib b = Inl e) \<or>
            (\<exists>m. json_Unmarshal demo_lib b = Inr m \<and> ImageDigest m \<noteq> ImageId demo_resolved))"
    by (simp add: model_defs demo_defs demo_env_exit1_def demo_resolved_def world_with_def)
  have r2: "fst ?g2 \<noteq> Ok ()" by (simp add: model_defs demo_defs demo_env_exit1_def demo_resolved_def world_with_def Let_def)
  have r3: "fst ?g3 = Ok ()" by (simp add: model_defs demo_defs demo_env_exit1_def demo_resolved_def world_with_def Let_def)
  have m: "json_Marshal demo_lib \<lparr>ImageDigest = ImageId demo_resolved\<rparr> = Inr (demo_stamp ''abc'')"
    by (simp add: demo_lib_def demo_Marshal_def demo_resolved_def)
  from stale_file_replaced_by_rename[OF run1 nf(1) p1]
  have a: "\<exists>ok evs. new_events (world_with None) (snd (snd ?g1)) =
       (EvOpen ''/cache/abc/disk.raw'', True) #
       (EvFgetxattr ''/cache/abc/disk.raw'' ''user.bootc.meta'', False) #
       (EvRemove ''/cache/abc/disk.raw'', True) #
       (EvCreateTemp ''/cache/abc'' ''podman-bootc-tempdisk'', ok) # evs"
    unfolding names by simp
  from stale_file_replaced_by_rename[OF run2 nf(2) p2] st r2
  have b: "fs (snd (snd ?g2)) ''/cache/abc/disk.raw'' = Some ?old"
    unfolding names by blast
  from stale_file_replaced_by_rename[OF run3 nf(1) p2] st r3
  have "\<exists>sz buf. json_Marshal demo_lib \<lparr>ImageDigest = ImageId demo_resolved\<rparr> = Inr buf \<and>
              fs (snd (snd ?g3)) ''/cache/abc/disk.raw'' = Some \<lparr>fsize = sz, xattr = Some buf\<rparr>"
    unfolding names by blast
  with m have c: "\<exists>sz. fs (snd (snd ?g3)) ''/cache/abc/disk.raw'' =
       Some \<lparr>fsize = sz, xattr = Some (demo_stamp ''abc'')\<rparr>"
    by auto
  show ?thesis using a b c by blast
qed

section \<open>A disk size that does not parse\<close>

text \<open>
  C7: the claim holds for the order (the error comes before any truncation and before
  the installer is started) but the code leaves a side effect behind. With the
  override \<open>abc\<close>, which does not parse, Install returns the parser's error; the
  calls made are the pull, the inspection, the lock, the directory, the open that
  finds no file, the creation of the temporary file and the unlock; and the temporary
  file, which did not exist before, is still in the cache directory afterwards: the
  return on the parse error comes before the \<open>defer\<close> that removes it.
\<close>

theorem unparsable_size_leaves_temp_file:
  "units_FromHumanSize demo_lib (DiskSize demo_config_bad_size) = Inl (Errno ''invalid size'') \<and>
   fst (Install demo_lib demo_env False demo_config_bad_size demo_disk world_init) =
     Err (Errno ''invalid size'') \<and>
   trace (snd (snd (Install demo_lib demo_env False demo_config_bad_size demo_disk world_init))) =
     [(EvPull ''quay.io/example/os'', True), (EvGetImage ''quay.io/example/os'', True),
      (EvTryLock ''/cache/abc'', True), (EvMkdirAll ''/cache/abc'', True),
      (EvOpen ''/cache/abc/disk.raw'', False),
      (EvCreateTemp ''/cache/abc'' ''podman-bootc-tempdisk'', True),
      (EvUnlock ''/cache/abc'', True)] \<and>
   fs world_init ''/cache/abc/podman-bootc-tempdisk42'' = None \<and>
   fs (snd (snd (Install demo_lib demo_env False demo_config_bad_size demo_disk world_init)))
      ''/cache/abc/podman-bootc-tempdisk42'' = Some \<lparr>fsize = 0, xattr = None\<rparr>"
  by (simp add: model_defs demo_defs demo_config_bad_size_def Let_def)

section \<open>Building twice\<close>

lemma Install_Ok_inv:
  assumes "Install l ev q c p w = (Ok (), p', w')"
  obtains pa wa wl wm wg where
    "pullImage ev (p\<lparr>CreatedAt := time_Now ev\<rparr>) w = (Ok (), pa, wa)"
    "lock_TryLock ev (filepath_Join (CacheDir (User pa)) (ImageId pa)) wa = (Inr True, wl)"
    "os_MkdirAll ev (filepath_Join (CacheDir (User pa)) (ImageId pa)) wl = (None, wm)"
    "getOrInstallImageToDisk l ev q c
       (pa\<lparr>Directory := filepath_Join (CacheDir (User pa)) (ImageId pa)\<rparr>) wm = (Ok (), p', wg)"
    "w' = snd (lock_Unlock ev (filepath_Join (CacheDir (User pa)) (ImageId pa)) wg)"
proof -
  let ?p0 = "p\<lparr>CreatedAt := time_Now ev\<rparr>"
  obtain r1 pa wa where pl: "pullImage ev ?p0 w = (r1, pa, wa)"
    by (cases "pullImage ev ?p0 w")
  have r1: "r1 = Ok ()" using assms pl by (cases r1) (auto simp: Install_def)
  let ?dir = "filepath_Join (CacheDir (User pa)) (ImageId pa)"
  obtain a wl where tl: "lock_TryLock ev ?dir wa = (a, wl)"
    by (cases "lock_TryLock ev ?dir wa")
  have a: "a = Inr True"
    using assms pl r1 tl by (cases a) (auto simp: Install_def Let_def split: if_splits)
  obtain b wm where mk: "os_MkdirAll ev ?dir wl = (b, wm)"
    by (cases "os_MkdirAll ev ?dir wl")
  have b: "b = None"
    using assms pl r1 tl a mk by (cases b) (auto simp: Install_def Let_def)
  obtain r2 p2 wg where g: "getOrInstallImageToDisk l ev q c (pa\<lparr>Directory := ?dir\<rparr>) wm = (r2, p2, wg)"
    by (cases "getOrInstallImageToDisk l ev q c (pa\<lparr>Directory := ?dir\<rparr>) wm")
  have "r2 = Ok () \<and> p2 = p' \<and> w' = snd (lock_Unlock ev ?dir wg)"
    using assms pl r1 tl a mk b g by (auto simp: Install_def Let_def)
  then show thesis using that[of pa wa wl wm wg] pl r1 tl a mk b g by simp
qed

lemma filter_session_Start:
  "filter is_Start ((EvCreateTemp d n, b1) # (EvFtruncate t sz, b2) # sevs @
       [(EvFsetxattr t x buf, b3), (EvRename t dp, b4)]) = filter is_Start sevs"
  by simp

lemma getOrInstallImageToDisk_built:
  assumes run: "getOrInstallImageToDisk l ev q c p w = (Ok (), p', w')"
    and built: "build_attempted (Directory p) (new_events w w')"
  shows "\<exists>sz buf. json_Marshal l \<lparr>ImageDigest = ImageId p\<rparr> = Inr buf \<and>
           fs w' (filepath_Join (Directory p) (config_DiskImage l)) = Some \<lparr>fsize = sz, xattr = Some buf\<rparr> \<and>
           locks w' = locks w \<and>
           (\<exists>evs. trace w' = trace w @ evs \<and> length (filter is_Start evs) = 1) \<and>
           p' = p\<lparr>p_file := p_file p', bootcInstallContainerId := bootcInstallContainerId p'\<rparr>"
  using run
proof (cases rule: getOrInstallImageToDisk_cases)
  case (open_error e)
  then show ?thesis by simp
next
  case (reuse f b m)
  have "new_events w w' =
          [(EvOpen (filepath_Join (Directory p) (config_DiskImage l)), True),
           (EvFgetxattr (filepath_Join (Directory p) (config_DiskImage l)) imageMetaXattr, True),
           (EvClose (filepath_Join (Directory p) (config_DiskImage l)), True)]"
    using reuse(9) by (simp add: new_events_def)
  with built show ?thesis by (simp add: build_attempted_def)
next
  case absent
  let ?dp = "filepath_Join (Directory p) (config_DiskImage l)"
  let ?w0 = "emit (EvOpen ?dp) False w"
  note f = bootcInstallImageToDisk_fields[OF absent(2)]
  from absent(2) show ?thesis
  proof (cases rule: bootcInstallImageToDisk_outcomes)
    case (published tmp sz buf sevs img)
    have "trace w' = trace w @ ((EvOpen ?dp, False) #
            (EvCreateTemp (Directory p) ''podman-bootc-tempdisk'', True) #
            (EvFtruncate tmp sz, True) # sevs @
            [(EvFsetxattr tmp imageMetaXattr buf, True), (EvRename tmp ?dp, True)])"
      using published(9) by (simp add: emit_def)
    moreover have "length (filter is_Start ((EvOpen ?dp, False) #
            (EvCreateTemp (Directory p) ''podman-bootc-tempdisk'', True) #
            (EvFtruncate tmp sz, True) # sevs @
            [(EvFsetxattr tmp imageMetaXattr buf, True), (EvRename tmp ?dp, True)])) = 1"
      using published(11) by simp
    moreover have "locks w' = locks w" using published(5) by (simp add: emit_def)
    moreover have "fs w' ?dp = Some \<lparr>fsize = sz, xattr = Some buf\<rparr>"
      using published(4) by simp
    ultimately show ?thesis using published(6) f by blast
  qed simp_all
next
  case (unreadable f' w1)
  let ?dp = "filepath_Join (Directory p) (config_DiskImage l)"
  let ?w0 = "os_Remove ?dp (emit (EvFgetxattr ?dp imageMetaXattr) False (emit (EvOpen ?dp) True w))"
  note f = bootcInstallImageToDisk_fields[OF unreadable(4)]
  from unreadable(4) show ?thesis
  proof (cases rule: bootcInstallImageToDisk_outcomes)
    case (published tmp sz buf sevs img)
    have "trace w' = trace w @ ((EvOpen ?dp, True) # (EvFgetxattr ?dp imageMetaXattr, False) #
            (EvRemove ?dp, True) #
            ((EvCreateTemp (Directory p) ''podman-bootc-tempdisk'', True) #
            (EvFtruncate tmp sz, True) # sevs @
            [(EvFsetxattr tmp imageMetaXattr buf, True), (EvRename tmp ?dp, True)]) @ [(EvClose ?dp, True)])"
      using published(9) unreadable(2,5) by (simp add: emit_def os_Remove_def os_Close_def)
    moreover have "length (filter is_Start ((EvOpen ?dp, True) # (EvFgetxattr ?dp imageMetaXattr, False) #
            (EvRemove ?dp, True) #
            ((EvCreateTemp (Directory p) ''podman-bootc-tempdisk'', True) #
            (EvFtruncate tmp sz, True) # sevs @
            [(EvFsetxattr tmp imageMetaXattr buf, True), (EvRename tmp ?dp, True)]) @ [(EvClose ?dp, True)])) = 1"
      using published(11) by simp
    moreover have "locks w' = locks w"
      using published(5) unreadable(5) by (simp add: emit_def os_Remove_def os_Close_def)
    moreover have "fs w' ?dp = Some \<lparr>fsize = sz, xattr = Some buf\<rparr>"
      using published(4) unreadable(5) by (simp add: os_Close_def emit_def)
    ultimately show ?thesis using published(6) f by blast
  qed simp_all
next
  case (stale f' b w1)
  let ?dp = "filepath_Join (Directory p) (config_DiskImage l)"
  note f = bootcInstallImageToDisk_fields[OF stale(6)]
  from stale(6) show ?thesis
  proof (cases rule: bootcInstallImageToDisk_outcomes)
    case (published tmp sz buf sevs img)
    have "trace w' = trace w @ ((EvOpen ?dp, True) # (EvFgetxattr ?dp imageMetaXattr, True) #
            ((EvCreateTemp (Directory p) ''podman-bootc-tempdisk'', True) #
            (EvFtruncate tmp sz, True) # sevs @
            [(EvFsetxattr tmp imageMetaXattr buf, True), (EvRename tmp ?dp, True)]) @ [(EvClose ?dp, True)])"
      using published(9) stale(7) by (simp add: emit_def os_Close_def)
    moreover have "length (filter is_Start ((EvOpen ?dp, True) # (EvFgetxattr ?dp imageMetaXattr, True) #
            ((EvCreateTemp (Directory p) ''podman-bootc-tempdisk'', True) #
            (EvFtruncate tmp sz, True) # sevs @
            [(EvFsetxattr tmp imageMetaXattr buf, True), (EvRename tmp ?dp, True)]) @ [(EvClose ?dp, True)])) = 1"
      using published(11) by simp
    moreover have "locks w' = locks w"
      using published(5) stale(7) by (simp add: emit_def os_Close_def)
    moreover have "fs w' ?dp = Some \<lparr>fsize = sz, xattr = Some buf\<rparr>"
      using published(4) stale(7) by (simp add: os_Close_def emit_def)
    ultimately show ?thesis using published(6) f by blast
  qed simp_all
qed

lemma bootcInstallImageToDisk_trace:
  assumes "bootcInstallImageToDisk l ev q c p w = (r, p', w')"
  shows "\<exists>evs. trace w' = trace w @ evs"
  using assms by (cases rule: bootcInstallImageToDisk_outcomes) auto

lemma getOrInstallImageToDisk_trace:
  assumes run: "getOrInstallImageToDisk l ev q c p w = (r, p', w')"
  shows "\<exists>evs. trace w' = trace w @ evs"
  using run
proof (cases rule: getOrInstallImageToDisk_cases)
  case absent
  from bootcInstallImageToDisk_trace[OF absent(2)] show ?thesis by (auto simp: emit_def)
next
  case (unreadable f w1)
  from bootcInstallImageToDisk_trace[OF unreadable(4)] unreadable(5) show ?thesis
    by (auto simp: emit_def os_Remove_def os_Close_def)
next
  case (stale f b w1)
  from bootcInstallImageToDisk_trace[OF stale(6)] stale(7) show ?thesis
    by (auto simp: emit_def os_Close_def)
qed (auto simp: emit_def)

lemma Install_reuse:
  assumes pull: "images_Pull ev (ImageNameOrId p) = Inr [i]"
      "images_GetImage ev (ImageNameOrId p) = Inr img" "RepoTags img = t # ts"
    and faults: "TryLock_fault ev = None" "MkdirAll_fault ev = None" "Open_fault ev = None"
    and free: "locks w (filepath_Join (CacheDir (User p)) i) = Free"
    and entry: "fs w (filepath_Join (filepath_Join (CacheDir (User p)) i) (config_DiskImage l)) = Some f"
      "xattr f = Some b" "length b \<le> 4096" "json_Unmarshal l b = Inr m" "ImageDigest m = i"
  shows "\<exists>w2. Install l ev q c p w =
           (Ok (), p\<lparr>CreatedAt := time_Now ev, imageData := Some img, ImageId := i, RepoTag := t,
                     Directory := filepath_Join (CacheDir (User p)) i\<rparr>, w2) \<and>
         fs w2 = fs w \<and>
         trace w2 = trace w @
           [(EvPull (ImageNameOrId p), True), (EvGetImage (ImageNameOrId p), True),
            (EvTryLock (filepath_Join (CacheDir (User p)) i), True),
            (EvMkdirAll (filepath_Join (CacheDir (User p)) i), True),
            (EvOpen (filepath_Join (filepath_Join (CacheDir (User p)) i) (config_DiskImage l)), True),
            (EvFgetxattr (filepath_Join (filepath_Join (CacheDir (User p)) i) (config_DiskImage l))
               imageMetaXattr, True),
            (EvClose (filepath_Join (filepath_Join (CacheDir (User p)) i) (config_DiskImage l)), True),
            (EvUnlock (filepath_Join (CacheDir (User p)) i), Unlock_fault ev = None)]"
proof -
  let ?dir = "filepath_Join (CacheDir (User p)) i"
  let ?dp = "filepath_Join ?dir (config_DiskImage l)"
  let ?pa = "p\<lparr>CreatedAt := time_Now ev, imageData := Some img, ImageId := i, RepoTag := t\<rparr>"
  let ?wa = "emit (EvGetImage (ImageNameOrId p)) True (emit (EvPull (ImageNameOrId p)) True w)"
  let ?wl = "emit (EvTryLock ?dir) True (?wa\<lparr>locks := (locks ?wa)(?dir := Self)\<rparr>)"
  let ?wm = "emit (EvMkdirAll ?dir) True ?wl"
  let ?pd = "?pa\<lparr>Directory := ?dir\<rparr>"
  let ?wg = "?wm\<lparr>trace := trace ?wm @ [(EvOpen ?dp, True), (EvFgetxattr ?dp imageMetaXattr, True),
               (EvClose ?dp, True)]\<rparr>"
  have pl: "pullImage ev (p\<lparr>CreatedAt := time_Now ev\<rparr>) w = (Ok (), ?pa, ?wa)"
    using pull by (simp add: pullImage_def Let_def)
  have tl: "lock_TryLock ev ?dir ?wa = (Inr True, ?wl)"
    using faults(1) free by (simp add: lock_TryLock_def emit_def)
  have mk: "os_MkdirAll ev ?dir ?wl = (None, ?wm)"
    using faults(2) by (simp add: os_MkdirAll_def)
  have g: "getOrInstallImageToDisk l ev q c ?pd ?wm = (Ok (), ?pd, ?wg)"
    using faults(3) entry
    by (simp add: getOrInstallImageToDisk_def os_Open_def unix_Fgetxattr_def os_Close_def emit_def
        Let_def)
  have "Install l ev q c p w = (Ok (), ?pd, snd (lock_Unlock ev ?dir ?wg))"
    using pl tl mk g by (simp add: Install_def Let_def)
  moreover have "fs (snd (lock_Unlock ev ?dir ?wg)) = fs w"
    by (cases "Unlock_fault ev") (simp_all add: lock_Unlock_def emit_def)
  moreover have "trace (snd (lock_Unlock ev ?dir ?wg)) = trace w @
           [(EvPull (ImageNameOrId p), True), (EvGetImage (ImageNameOrId p), True),
            (EvTryLock ?dir, True), (EvMkdirAll ?dir, True), (EvOpen ?dp, True),
            (EvFgetxattr ?dp imageMetaXattr, True), (EvClose ?dp, True),
            (EvUnlock ?dir, Unlock_fault ev = None)]"
    by (cases "Unlock_fault ev") (simp_all add: lock_Unlock_def emit_def)
  ultimately show ?thesis by simp
qed

lemma getOrInstallImageToDisk_fields:
  assumes run: "getOrInstallImageToDisk l ev q c p w = (r, p', w')"
  shows "p' = p\<lparr>p_file := p_file p', bootcInstallContainerId := bootcInstallContainerId p'\<rparr>"
  using run
proof (cases rule: getOrInstallImageToDisk_cases)
  case absent
  from bootcInstallImageToDisk_fields[OF absent(2)] show ?thesis .
next
  case (unreadable f w1)
  from bootcInstallImageToDisk_fields[OF unreadable(4)] show ?thesis .
next
  case (stale f b w1)
  from bootcInstallImageToDisk_fields[OF stale(6)] show ?thesis .
qed simp_all

lemma lock_TryLock_True:
  "lock_TryLock ev dir w = (Inr True, w') \<Longrightarrow>
     w' = emit (EvTryLock dir) True (w\<lparr>locks := (locks w)(dir := Self)\<rparr>)"
  by (auto simp: lock_TryLock_def split: option.splits holder.splits)

lemma os_MkdirAll_None:
  "os_MkdirAll ev dir w = (None, w') \<Longrightarrow> w' = emit (EvMkdirAll dir) True w"
  by (auto simp: os_MkdirAll_def split: option.splits)

text \<open>
  C5: building twice in a row for the same image digest performs the external install
  exactly once. After a first Install that succeeded by building (and released the
  lock), a second Install on the same disk manager and the same world, for which the
  pull returns the same digest and nothing fails before the cache check, succeeds on
  the Reuse path: its calls are the pull, the inspection, the lock, the directory, the
  open, the read of the attribute, the close and the unlock, so it starts no installer
  and writes no file; the install container was started once in the first call and
  once over both calls; and the second call's descriptor has the same directory, image
  id and size as the first. The codec is assumed to read back what it wrote for this
  digest, within the 4096 bytes the check reads.
\<close>

theorem second_build_reuses:
  assumes first: "Install l ev1 q1 c1 p w = (Ok (), p1, w1)"
    and built: "build_attempted (Directory p1) (new_events w w1)"
    and unlocked: "Unlock_fault ev1 = None"
    and same: "images_Pull ev2 (ImageNameOrId p1) = Inr [ImageId p1]"
    and img2: "images_GetImage ev2 (ImageNameOrId p1) = Inr img2" "RepoTags img2 \<noteq> []"
    and ok2: "TryLock_fault ev2 = None" "MkdirAll_fault ev2 = None" "Open_fault ev2 = None"
    and codec: "\<forall>buf. json_Marshal l \<lparr>ImageDigest = ImageId p1\<rparr> = Inr buf \<longrightarrow>
                 length buf \<le> 4096 \<and> json_Unmarshal l buf = Inr \<lparr>ImageDigest = ImageId p1\<rparr>"
  shows "\<exists>p2 w2. Install l ev2 q2 c2 p1 w1 = (Ok (), p2, w2) \<and>
           fs w2 = fs w1 \<and>
           new_events w1 w2 =
             [(EvPull (ImageNameOrId p1), True), (EvGetImage (ImageNameOrId p1), True),
              (EvTryLock (Directory p1), True), (EvMkdirAll (Directory p1), True),
              (EvOpen (filepath_Join (Directory p1) (config_DiskImage l)), True),
              (EvFgetxattr (filepath_Join (Directory p1) (config_DiskImage l)) imageMetaXattr, True),
              (EvClose (filepath_Join (Directory p1) (config_DiskImage l)), True),
              (EvUnlock (Directory p1), Unlock_fault ev2 = None)] \<and>
           length (filter is_Start (new_events w w1)) = 1 \<and>
           length (filter is_Start (new_events w w2)) = 1 \<and>
           GetDirectory p2 = GetDirectory p1 \<and> GetImageId p2 = GetImageId p1 \<and>
           (\<exists>sz. GetSize l p1 w1 = Inr sz \<and> GetSize l p2 w2 = Inr sz)"
proof -
  from first obtain pa wa wl wm wg where
    pl: "pullImage ev1 (p\<lparr>CreatedAt := time_Now ev1\<rparr>) w = (Ok (), pa, wa)"
    and tl: "lock_TryLock ev1 (filepath_Join (CacheDir (User pa)) (ImageId pa)) wa = (Inr True, wl)"
    and mk: "os_MkdirAll ev1 (filepath_Join (CacheDir (User pa)) (ImageId pa)) wl = (None, wm)"
    and g: "getOrInstallImageToDisk l ev1 q1 c1
       (pa\<lparr>Directory := filepath_Join (CacheDir (User pa)) (ImageId pa)\<rparr>) wm = (Ok (), p1, wg)"
    and w1: "w1 = snd (lock_Unlock ev1 (filepath_Join (CacheDir (User pa)) (ImageId pa)) wg)"
    by (rule Install_Ok_inv)
  let ?dir = "filepath_Join (CacheDir (User pa)) (ImageId pa)"
  let ?pd = "pa\<lparr>Directory := ?dir\<rparr>"
  let ?n = "ImageNameOrId p"
  from pullImage_Ok[OF pl] obtain i img t ts where
    pa: "pa = p\<lparr>CreatedAt := time_Now ev1, imageData := Some img, ImageId := i, RepoTag := t\<rparr>"
    and wa: "wa = emit (EvGetImage ?n) True (emit (EvPull ?n) True w)"
    by auto
  have wl: "wl = emit (EvTryLock ?dir) True (wa\<lparr>locks := (locks wa)(?dir := Self)\<rparr>)"
    using tl by (rule lock_TryLock_True)
  have wm: "wm = emit (EvMkdirAll ?dir) True wl"
    using mk by (rule os_MkdirAll_None)
  have trm: "trace wm = trace w @ [(EvPull ?n, True), (EvGetImage ?n, True), (EvTryLock ?dir, True),
      (EvMkdirAll ?dir, True)]"
    by (simp add: wm wl wa emit_def)
  note pf = getOrInstallImageToDisk_fields[OF g]
  have p1: "Directory p1 = ?dir" "ImageId p1 = ImageId pa" "User p1 = User p"
    "ImageNameOrId p1 = ImageNameOrId p"
    by (subst pf, simp add: pa)+
  from getOrInstallImageToDisk_trace[OF g] obtain evs where evs: "trace wg = trace wm @ evs"
    by blast
  have w1': "w1 = emit (EvUnlock ?dir) True (wg\<lparr>locks := (locks wg)(?dir := Free)\<rparr>)"
    using w1 unlocked by (simp add: lock_Unlock_def)
  have tr1: "trace w1 = trace w @ [(EvPull ?n, True), (EvGetImage ?n, True), (EvTryLock ?dir, True),
      (EvMkdirAll ?dir, True)] @ evs @ [(EvUnlock ?dir, True)]"
    by (simp add: w1' evs trm emit_def)
  have "build_attempted ?dir (new_events wm wg)"
    using built unfolding p1(1) by (auto simp: build_attempted_def new_events_def tr1 evs)
  then have b: "build_attempted (Directory ?pd) (new_events wm wg)" by simp
  from getOrInstallImageToDisk_built[OF g b] obtain sz buf evs' where
    m: "json_Marshal l \<lparr>ImageDigest = ImageId pa\<rparr> = Inr buf"
    and entry: "fs wg (filepath_Join ?dir (config_DiskImage l)) = Some \<lparr>fsize = sz, xattr = Some buf\<rparr>"
    and lk: "locks wg = locks wm"
    and evs': "trace wg = trace wm @ evs'" "length (filter is_Start evs') = 1"
    by auto
  have ee: "evs' = evs" using evs evs'(1) by simp
  have one: "length (filter is_Start (new_events w w1)) = 1"
    using evs'(2) ee by (simp add: new_events_def tr1)
  from codec m p1(2) have cd: "length buf \<le> 4096"
    "json_Unmarshal l buf = Inr \<lparr>ImageDigest = ImageId p1\<rparr>" by auto
  from img2(2) obtain t2 ts2 where t2: "RepoTags img2 = t2 # ts2" by (cases "RepoTags img2") auto
  have dir1: "filepath_Join (CacheDir (User p1)) (ImageId p1) = Directory p1"
    using p1 by (simp add: pa)
  have free: "locks w1 (filepath_Join (CacheDir (User p1)) (ImageId p1)) = Free"
    unfolding dir1 p1(1) by (simp add: w1' emit_def)
  have entry1: "fs w1 (filepath_Join (filepath_Join (CacheDir (User p1)) (ImageId p1)) (config_DiskImage l))
      = Some \<lparr>fsize = sz, xattr = Some buf\<rparr>"
    unfolding dir1 p1(1) using entry by (simp add: w1' emit_def)
  from Install_reuse[OF same img2(1) t2 ok2 free entry1 _ cd(1) cd(2), of q2 c2]
  obtain w2 where
    run2: "Install l ev2 q2 c2 p1 w1 =
           (Ok (), p1\<lparr>CreatedAt := time_Now ev2, imageData := Some img2, ImageId := ImageId p1,
                  RepoTag := t2, Directory := filepath_Join (CacheDir (User p1)) (ImageId p1)\<rparr>, w2)"
    and fs2: "fs w2 = fs w1"
    and tr2: "trace w2 = trace w1 @
           [(EvPull (ImageNameOrId p1), True), (EvGetImage (ImageNameOrId p1), True),
            (EvTryLock (filepath_Join (CacheDir (User p1)) (ImageId p1)), True),
            (EvMkdirAll (filepath_Join (CacheDir (User p1)) (ImageId p1)), True),
            (EvOpen (filepath_Join (filepath_Join (CacheDir (User p1)) (ImageId p1)) (config_DiskImage l)), True),
            (EvFgetxattr (filepath_Join (filepath_Join (CacheDir (User p1)) (ImageId p1)) (config_DiskImage l))
               imageMetaXattr, True),
            (EvClose (filepath_Join (filepath_Join (CacheDir (User p1)) (ImageId p1)) (config_DiskImage l)), True),
            (EvUnlock (filepath_Join (CacheDir (User p1)) (ImageId p1)), Unlock_fault ev2 = None)]"
    by auto
  let ?p2 = "p1\<lparr>CreatedAt := time_Now ev2, imageData := Some img2, ImageId := ImageId p1,
                  RepoTag := t2, Directory := filepath_Join (CacheDir (User p1)) (ImageId p1)\<rparr>"
  have ne2: "new_events w1 w2 =
             [(EvPull (ImageNameOrId p1), True), (EvGetImage (ImageNameOrId p1), True),
              (EvTryLock (Directory p1), True), (EvMkdirAll (Directory p1), True),
              (EvOpen (filepath_Join (Directory p1) (config_DiskImage l)), True),
              (EvFgetxattr (filepath_Join (Directory p1) (config_DiskImage l)) imageMetaXattr, True),
              (EvClose (filepath_Join (Directory p1) (config_DiskImage l)), True),
              (EvUnlock (Directory p1), Unlock_fault ev2 = None)]"
    using tr2 unfolding dir1 by (simp add: new_events_def)
  have both: "length (filter is_Start (new_events w w2)) = 1"
    using evs'(2) ee tr2 by (simp add: new_events_def tr1)
  have gd: "GetDirectory ?p2 = GetDirectory p1" "GetImageId ?p2 = GetImageId p1"
    using dir1 by (simp_all add: GetDirectory_def GetImageId_def)
  have gs: "GetSize l p1 w1 = Inr sz" "GetSize l ?p2 w2 = Inr sz"
    using entry1 fs2 dir1 by (simp_all add: GetSize_def)
  show ?thesis using run2 fs2 ne2 one both gd gs by blast
qed

theorem second_build_reuses_witness:
  "\<exists>p2 w2. Install demo_lib demo_env True demo_config
        (fst (snd (Install demo_lib demo_env False demo_config demo_disk world_init)))
        (snd (snd (Install demo_lib demo_env False demo_config demo_disk world_init))) =
          (Ok (), p2, w2) \<and>
     fs w2 = fs (snd (snd (Install demo_lib demo_env False demo_config demo_disk world_init))) \<and>
     length (filter is_Start (new_events world_init w2)) = 1 \<and>
     GetDirectory p2 = ''/cache/abc'' \<and>
     GetSize demo_lib p2 w2 = Inr 10737418240"
proof -
  let ?i = "Install demo_lib demo_env False demo_config demo_disk world_init"
  let ?p1 = "fst (snd ?i)"
  let ?w1 = "snd (snd ?i)"
  have first: "?i = (Ok (), ?p1, ?w1)"
    by (simp add: model_defs demo_defs Let_def)
  have built: "build_attempted (Directory ?p1) (new_events world_init ?w1)"
    by (simp add: build_attempted_def model_defs demo_defs Let_def)
  have unlocked: "Unlock_fault demo_env = None"
    by (simp add: demo_defs)
  have same: "images_Pull demo_env (ImageNameOrId ?p1) = Inr [ImageId ?p1]"
    by (simp add: model_defs demo_defs Let_def)
  have img2: "images_GetImage demo_env (ImageNameOrId ?p1) = Inr demo_image"
    "RepoTags demo_image \<noteq> []"
    by (simp_all add: demo_defs)
  have ok2: "TryLock_fault demo_env = None" "MkdirAll_fault demo_env = None"
    "Open_fault demo_env = None"
    by (simp_all add: demo_defs)
  have id1: "ImageId ?p1 = ''abc''"
    by (simp add: model_defs demo_defs Let_def)
  have codec: "\<forall>buf. json_Marshal demo_lib \<lparr>ImageDigest = ImageId ?p1\<rparr> = Inr buf \<longrightarrow>
                 length buf \<le> 4096 \<and> json_Unmarshal demo_lib buf = Inr \<lparr>ImageDigest = ImageId ?p1\<rparr>"
    unfolding id1 by (simp add: demo_defs)
  have d1: "GetDirectory ?p1 = ''/cache/abc''"
    by (simp add: GetDirectory_def model_defs demo_defs Let_def)
  have s1: "GetSize demo_lib ?p1 ?w1 = Inr 10737418240"
    by (simp add: GetSize_def model_defs demo_defs Let_def)
  from second_build_reuses[OF first built unlocked same img2 ok2 codec, where ?q2.0 = True
      and ?c2.0 = demo_config]
  obtain p2 w2 where
    "Install demo_lib demo_env True demo_config ?p1 ?w1 = (Ok (), p2, w2)" "fs w2 = fs ?w1"
    "length (filter is_Start (new_events world_init w2)) = 1"
    "GetDirectory p2 = GetDirectory ?p1"
    "\<exists>sz. GetSize demo_lib ?p1 ?w1 = Inr sz \<and> GetSize demo_lib p2 w2 = Inr sz"
    by blast
  then show ?thesis using d1 s1 by auto
qed

end
